theory Spec2Isabelle
  imports Main
begin

section \<open>Tunnel parameters derived from the tunnel number\<close>

text \<open>
  The embedding follows \<^verbatim>\<open>backend/deviceLogic/tunnels.js\<close>. Tunnel numbers are
  the values handed out by the tunnel-id counter, hence non-negative integers: they are
  modelled as \<^typ>\<open>nat\<close>, on which JavaScript's \<^verbatim>\<open>%\<close> and
  \<^verbatim>\<open>Math.floor(x / 127)\<close> are \<open>mod\<close> and \<open>div\<close>.
\<close>

definition digitChar :: "nat \<Rightarrow> char" where
  "digitChar d = ''0123456789abcdef'' ! d"

text \<open>\<^verbatim>\<open>(+n).toString(radix)\<close> on a non-negative integer; the source uses the
  radices 10 and 16 only.\<close>

function toString :: "nat \<Rightarrow> nat \<Rightarrow> string" where
  "toString radix n =
     (if radix < 2 \<or> n < radix then [digitChar n]
      else toString radix (n div radix) @ [digitChar (n mod radix)])"
  by pat_completeness auto
termination
  by (relation "measure (\<lambda>(radix, n). n)") auto

declare toString.simps [simp del]

text \<open>\<^verbatim>\<open>s.substr(-2)\<close>: the last two characters of the string.\<close>

definition substrLast2 :: "string \<Rightarrow> string" where
  "substrLast2 s = drop (length s - 2) s"

text \<open>\<^verbatim>\<open>const d2h = (d) => (('00' + (+d).toString(16)).substr(-2))\<close>\<close>

definition d2h :: "nat \<Rightarrow> string" where
  "d2h d = substrLast2 (''00'' @ toString 16 d)"

record tunnelParams =
  ip1 :: string
  ip2 :: string
  mac1 :: string
  mac2 :: string
  sa1 :: nat
  sa2 :: nat

definition generateTunnelParams :: "nat \<Rightarrow> tunnelParams" where
  "generateTunnelParams tunnelNum =
     (let h = (tunnelNum mod 127 + 1) * 2;
          l = tunnelNum div 127
      in \<lparr> ip1 = ''10.100.'' @ toString 10 l @ ''.'' @ toString 10 h,
           ip2 = ''10.100.'' @ toString 10 l @ ''.'' @ toString 10 (h + 1),
           mac1 = ''02:00:27:fd:'' @ d2h l @ '':'' @ d2h h,
           mac2 = ''02:00:27:fd:'' @ d2h l @ '':'' @ d2h (h + 1),
           sa1 = l * 256 + h,
           sa2 = l * 256 + h + 1 \<rparr>)"

text \<open>\<^verbatim>\<open>generateRandomKeys\<close> draws four random keys; the model takes the four
  drawn values from its environment.\<close>

record tunnelKeys =
  key1 :: string
  key2 :: string
  key3 :: string
  key4 :: string

section \<open>Devices, interfaces and the task payloads\<close>

type_synonym oid = string

record interface =
  ifcId :: oid
  ifcName :: string
  isAssigned :: bool
  ifcType :: string
  IPv4 :: string
  PublicIP :: string

record device =
  devId :: oid
  hostname :: string
  machineId :: string
  routerVersion :: string
  agentVersion :: string
  interfaces :: "interface list"

record securityAssoc =
  spi :: nat
  cryptoKey :: string
  integrKey :: string
  cryptoAlg :: string
  integrAlg :: string

record ipsecParams =
  localSa :: securityAssoc
  remoteSa :: securityAssoc

record loopbackIface =
  addr :: string
  mac :: string
  mtu :: "nat option"
  routing :: "string option"

record taskParams =
  src :: string
  dst :: string
  tunnelId :: nat
  ipsec :: "ipsecParams option"
  loopback :: loopbackIface

record task =
  entity :: string
  message :: string
  params :: taskParams

definition prepareTunnelAddJob ::
  "tunnelKeys \<Rightarrow> nat \<Rightarrow> interface \<Rightarrow> interface \<Rightarrow> string \<Rightarrow> task list \<times> task list" where
  "prepareTunnelAddJob tunnelKeys tunnelnum deviceAIntf deviceBIntf devBagentVer =
     (let tunnelParams = generateTunnelParams tunnelnum;
          paramsSaAB = \<lparr> spi = sa1 tunnelParams, cryptoKey = key1 tunnelKeys,
                         integrKey = key2 tunnelKeys, cryptoAlg = ''aes-cbc-128'',
                         integrAlg = ''sha-256-128'' \<rparr>;
          paramsSaBA = \<lparr> spi = sa2 tunnelParams, cryptoKey = key3 tunnelKeys,
                         integrKey = key4 tunnelKeys, cryptoAlg = ''aes-cbc-128'',
                         integrAlg = ''sha-256-128'' \<rparr>;
          paramsDeviceA =
            \<lparr> src = IPv4 deviceAIntf,
              dst = (if PublicIP deviceBIntf = '''' then IPv4 deviceBIntf
                     else PublicIP deviceBIntf),
              tunnelId = tunnelnum,
              ipsec = Some \<lparr> localSa = paramsSaAB, remoteSa = paramsSaBA \<rparr>,
              loopback = \<lparr> addr = ip1 tunnelParams @ ''/31'', mac = mac1 tunnelParams,
                           mtu = Some 1350, routing = Some ''ospf'' \<rparr> \<rparr>;
          paramsDeviceB =
            \<lparr> src = IPv4 deviceBIntf,
              dst = (if PublicIP deviceAIntf = '''' then IPv4 deviceAIntf
                     else PublicIP deviceAIntf),
              tunnelId = tunnelnum,
              ipsec = Some \<lparr> localSa = paramsSaAB\<lparr>spi := sa2 tunnelParams\<rparr>,
                             remoteSa = paramsSaBA\<lparr>spi := sa1 tunnelParams\<rparr> \<rparr>,
              loopback = \<lparr> addr = ip2 tunnelParams @ ''/31'', mac = mac2 tunnelParams,
                           mtu = Some 1350, routing = Some ''ospf'' \<rparr> \<rparr>
      in ([\<lparr> entity = ''agent'', message = ''add-tunnel'', params = paramsDeviceA \<rparr>],
          [\<lparr> entity = ''agent'', message = ''add-tunnel'', params = paramsDeviceB \<rparr>]))"

definition prepareTunnelRemoveJob ::
  "nat \<Rightarrow> interface \<Rightarrow> interface \<Rightarrow> task list \<times> task list" where
  "prepareTunnelRemoveJob tunnelnum deviceAIntf deviceBIntf =
     (let tunnelParams = generateTunnelParams tunnelnum;
          paramsDeviceA =
            \<lparr> src = IPv4 deviceAIntf,
              dst = (if PublicIP deviceBIntf = '''' then IPv4 deviceBIntf
                     else PublicIP deviceBIntf),
              tunnelId = tunnelnum,
              ipsec = None,
              loopback = \<lparr> addr = ip1 tunnelParams @ ''/31'', mac = mac1 tunnelParams,
                           mtu = None, routing = None \<rparr> \<rparr>;
          paramsDeviceB =
            \<lparr> src = IPv4 deviceBIntf,
              dst = (if PublicIP deviceAIntf = '''' then IPv4 deviceAIntf
                     else PublicIP deviceAIntf),
              tunnelId = tunnelnum,
              ipsec = None,
              loopback = \<lparr> addr = ip2 tunnelParams @ ''/31'', mac = mac2 tunnelParams,
                           mtu = None, routing = None \<rparr> \<rparr>
      in ([\<lparr> entity = ''agent'', message = ''remove-tunnel'', params = paramsDeviceA \<rparr>],
          [\<lparr> entity = ''agent'', message = ''remove-tunnel'', params = paramsDeviceB \<rparr>]))"

section \<open>The persistent store and the job queue\<close>

text \<open>
  Modelled from the spec: the tunnel schema (\<^verbatim>\<open>models/tunnels\<close>, not in src/). A
  tunnel record has an identity, the organization, the tunnel number, the references to
  device A/B and their interfaces, the active flag and the two confirmation flags; these
  are also exactly the paths that \<^verbatim>\<open>tunnels.js\<close> reads and writes.
\<close>

record tunnel =
  tid :: oid
  org :: oid
  num :: nat
  isActive :: bool
  deviceAconf :: bool
  deviceBconf :: bool
  deviceA :: oid
  interfaceA :: oid
  deviceB :: oid
  interfaceB :: oid

text \<open>The response data and the job that \<^verbatim>\<open>queueTunnel\<close> hands to
  \<^verbatim>\<open>deviceQueues.addJob\<close>.\<close>

record responseData =
  resUsername :: string
  resOrg :: oid
  resDeviceA :: oid
  resDeviceB :: oid
  resTarget :: string

record job =
  jobMachineId :: string
  jobUser :: string
  jobOrg :: oid
  title :: string
  tasks :: "task list"
  jobMethod :: string
  response :: responseData
  priority :: string
  attempts :: nat
  removeOnComplete :: bool

text \<open>Every call that leaves the process is recorded, in the order it is issued.\<close>

datatype storeCall =
  TunnelsFind | TunnelsFindOne | TunnelsFindOneAndUpdate | TunnelIDsFindOneAndUpdate
  | QueueAddJob

text \<open>
  The state that the module shares with its collaborators: the tunnels collection (in
  the order the store scans it), the tunnel-id counter of every organization, the devices
  collection (read by \<^verbatim>\<open>populate\<close>), and the jobs accepted by the queue.
\<close>

record store =
  tunnels :: "tunnel list"
  tunnelids :: "oid \<rightharpoonup> nat"
  devicesColl :: "device list"
  queue :: "job list"
  calls :: "storeCall list"

text \<open>A rejection of a store or queue call carries an error; \<open>MongoError c\<close> is a
  store error with \<^verbatim>\<open>err.code === c\<close>. \<open>Error m\<close> is \<^verbatim>\<open>new Error(m)\<close>.\<close>

datatype error = MongoError nat | Error string | TypeError

fun errCode :: "error \<Rightarrow> nat option" where
  "errCode (MongoError c) = Some c"
| "errCode (Error m) = None"
| "errCode TypeError = None"

text \<open>
  What the surroundings decide for one run: for every store or queue call site whether
  it is rejected (\<open>Some e\<close>) or served (\<open>None\<close>), the keys drawn by
  \<^verbatim>\<open>generateRandomKeys\<close>, and the identity given to an inserted tunnel record.
\<close>

record env =
  findErr :: "error option"
  claimErr :: "error option"
  incErr :: "error option"
  incErr2 :: "error option"
  upsertErr :: "error option"
  jobAErr :: "error option"
  jobBErr :: "error option"
  findOneErr :: "error option"
  deactivateErr :: "error option"
  connectedErr :: "error option"
  randomKeys :: tunnelKeys
  newOid :: oid

datatype 'a promise = Resolved 'a | Rejected string | Pending

text \<open>\<^verbatim>\<open>Model.findOneAndUpdate(query, update)\<close> on a collection: the first
  record matching the query is updated; the record as it was before the update is
  returned, or \<open>None\<close> (\<^verbatim>\<open>null\<close>) when no record matches.\<close>

fun findOneAndUpdate :: "('a \<Rightarrow> bool) \<Rightarrow> ('a \<Rightarrow> 'a) \<Rightarrow> 'a list \<Rightarrow> 'a option \<times> 'a list" where
  "findOneAndUpdate q u [] = (None, [])"
| "findOneAndUpdate q u (d # ds) =
     (if q d then (Some d, u d # ds)
      else (case findOneAndUpdate q u ds of (r, ds') \<Rightarrow> (r, d # ds')))"

definition logCall :: "storeCall \<Rightarrow> store \<Rightarrow> store" where
  "logCall c s = s\<lparr>calls := calls s @ [c]\<rparr>"

text \<open>The query \<^verbatim>\<open>{ $or: [{ deviceA: a, deviceB: b }, { deviceB: a, deviceA: b }],
  isActive: true, org: org }\<close> of \<^verbatim>\<open>getTunnelPromise\<close>.\<close>

definition activeBetweenDevices :: "oid \<Rightarrow> oid \<Rightarrow> oid \<Rightarrow> tunnel \<Rightarrow> bool" where
  "activeBetweenDevices orgId a b t =
     (((deviceA t = a \<and> deviceB t = b) \<or> (deviceB t = a \<and> deviceA t = b))
      \<and> isActive t = True \<and> org t = orgId)"

text \<open>\<^verbatim>\<open>tunnelsModel.find(query)\<close> with that query.\<close>

definition tunnelsFind ::
  "error option \<Rightarrow> oid \<Rightarrow> oid \<Rightarrow> oid \<Rightarrow> store \<Rightarrow> (error + tunnel list) \<times> store" where
  "tunnelsFind fault orgId a b s =
     (case fault of
        Some e \<Rightarrow> (Inl e, logCall TunnelsFind s)
      | None \<Rightarrow>
          (Inr (filter (activeBetweenDevices orgId a b) (tunnels s)), logCall TunnelsFind s))"

text \<open>\<^verbatim>\<open>tunnelsModel.findOneAndUpdate(query, update, { upsert: false })\<close>; the
  result is the record before the update.\<close>

definition tunnelsFindOneAndUpdate ::
  "error option \<Rightarrow> (tunnel \<Rightarrow> bool) \<Rightarrow> (tunnel \<Rightarrow> tunnel) \<Rightarrow> store
     \<Rightarrow> (error + tunnel option) \<times> store" where
  "tunnelsFindOneAndUpdate fault q u s =
     (case fault of
        Some e \<Rightarrow> (Inl e, logCall TunnelsFindOneAndUpdate s)
      | None \<Rightarrow>
          (case findOneAndUpdate q u (tunnels s) of
             (r, ts) \<Rightarrow> (Inr r, logCall TunnelsFindOneAndUpdate (s\<lparr>tunnels := ts\<rparr>))))"

text \<open>\<^verbatim>\<open>tunnelsModel.findOneAndUpdate({ org, num }, { isActive: true, deviceAconf:
  false, deviceBconf: false, deviceA, interfaceA, deviceB, interfaceB }, { upsert: true })\<close>:
  the first record with this organization and number is updated; when there is none, a
  record is inserted with the fields of the query and of the update.\<close>

definition upsertTunnel ::
  "oid \<Rightarrow> oid \<Rightarrow> nat \<Rightarrow> oid \<Rightarrow> oid \<Rightarrow> oid \<Rightarrow> oid \<Rightarrow> tunnel list \<Rightarrow> tunnel list" where
  "upsertTunnel freshId orgId tunnelnum devA intfA devB intfB ts =
     (case findOneAndUpdate (\<lambda>t. org t = orgId \<and> num t = tunnelnum)
             (\<lambda>t. t\<lparr> isActive := True, deviceAconf := False, deviceBconf := False,
                     deviceA := devA, interfaceA := intfA,
                     deviceB := devB, interfaceB := intfB \<rparr>) ts of
        (Some found, ts') \<Rightarrow> ts'
      | (None, ts') \<Rightarrow>
          ts' @ [\<lparr> tid = freshId, org = orgId, num = tunnelnum, isActive = True,
                   deviceAconf = False, deviceBconf = False,
                   deviceA = devA, interfaceA = intfA,
                   deviceB = devB, interfaceB = intfB \<rparr>])"

definition tunnelsUpsert ::
  "error option \<Rightarrow> oid \<Rightarrow> oid \<Rightarrow> nat \<Rightarrow> oid \<Rightarrow> oid \<Rightarrow> oid \<Rightarrow> oid \<Rightarrow> store
     \<Rightarrow> (error + unit) \<times> store" where
  "tunnelsUpsert fault freshId orgId tunnelnum devA intfA devB intfB s =
     (case fault of
        Some e \<Rightarrow> (Inl e, logCall TunnelsFindOneAndUpdate s)
      | None \<Rightarrow>
          (Inr (), logCall TunnelsFindOneAndUpdate
                     (s\<lparr>tunnels := upsertTunnel freshId orgId tunnelnum devA intfA devB intfB
                                      (tunnels s)\<rparr>)))"

text \<open>
  Modelled from the spec: the tunnel-id counter collection (\<^verbatim>\<open>models/tunnelids\<close>, not
  in src/) holds one counter per organization, so it is a map from the organization to
  \<^verbatim>\<open>nextAvailID\<close>. The call is the source's
  \<^verbatim>\<open>tunnelIDsModel.findOneAndUpdate({ org, nextAvailID: { $gte: 0, $lt: 15000 } },
  { $inc: { nextAvailID: 1 } }, { new: true, upsert: true })\<close>: a counter matching the
  query is incremented and, because of \<^verbatim>\<open>new: true\<close>, the record after the update
  is returned; when the organization has no counter the upsert inserts one, on which
  \<^verbatim>\<open>$inc\<close> leaves the value 1; when the organization has a counter that does not
  match the range, the upsert would insert a second record for the organization and the
  store rejects it with the duplicate key error, code 11000 (the source's comment:
  "org is a key value in the collection").
\<close>

definition tunnelIDsFindOneAndUpdate ::
  "error option \<Rightarrow> oid \<Rightarrow> store \<Rightarrow> (error + nat) \<times> store" where
  "tunnelIDsFindOneAndUpdate fault orgId s =
     (case fault of
        Some e \<Rightarrow> (Inl e, logCall TunnelIDsFindOneAndUpdate s)
      | None \<Rightarrow>
          (case tunnelids s orgId of
             Some nextAvailID \<Rightarrow>
               if 0 \<le> nextAvailID \<and> nextAvailID < 15000
               then (Inr (nextAvailID + 1),
                     logCall TunnelIDsFindOneAndUpdate
                       (s\<lparr>tunnelids := (tunnelids s)(orgId \<mapsto> nextAvailID + 1)\<rparr>))
               else (Inl (MongoError 11000), logCall TunnelIDsFindOneAndUpdate s)
           | None \<Rightarrow>
               (Inr 1, logCall TunnelIDsFindOneAndUpdate
                         (s\<lparr>tunnelids := (tunnelids s)(orgId \<mapsto> 1)\<rparr>))))"

text \<open>
  Modelled from the spec: \<^verbatim>\<open>deviceQueues.addJob\<close> (\<^verbatim>\<open>utils/deviceQueue\<close>, not
  in src/) submits one job to the job delivery system, which answers with the job handle
  or a rejection; an accepted job is in the queue.
\<close>

definition addJob :: "error option \<Rightarrow> job \<Rightarrow> store \<Rightarrow> (error + job) \<times> store" where
  "addJob fault j s =
     (case fault of
        Some e \<Rightarrow> (Inl e, logCall QueueAddJob s)
      | None \<Rightarrow> (Inr j, logCall QueueAddJob (s\<lparr>queue := queue s @ [j]\<rparr>)))"

section \<open>Queueing the two jobs of a tunnel\<close>

definition tunnelJob ::
  "bool \<Rightarrow> string \<Rightarrow> task list \<Rightarrow> string \<Rightarrow> oid \<Rightarrow> string \<Rightarrow> oid \<Rightarrow> oid \<Rightarrow> string \<Rightarrow> job" where
  "tunnelJob isAdd ttl tasksDevice user orgId devMachineID devAOid devBOid side =
     \<lparr> jobMachineId = devMachineID, jobUser = user, jobOrg = orgId,
       title = ttl, tasks = tasksDevice,
       jobMethod = (if isAdd then ''tunnels'' else ''deltunnels''),
       response = \<lparr> resUsername = user, resOrg = orgId, resDeviceA = devAOid,
                    resDeviceB = devBOid, resTarget = side \<rparr>,
       priority = ''normal'', attempts = 1, removeOnComplete = False \<rparr>"

definition queueTunnel ::
  "env \<Rightarrow> bool \<Rightarrow> string \<Rightarrow> task list \<Rightarrow> task list \<Rightarrow> string \<Rightarrow> oid \<Rightarrow> string \<Rightarrow> string
     \<Rightarrow> oid \<Rightarrow> oid \<Rightarrow> store \<Rightarrow> (error + job list) \<times> store" where
  "queueTunnel e isAdd ttl tasksDeviceA tasksDeviceB user orgId devAMachineID devBMachineID
       devAOid devBOid s =
     (let failure = Error (''Error queuing tunnel for device IDs '' @ devAMachineID
                            @ '' and '' @ devBMachineID)
      in case addJob (jobAErr e)
                (tunnelJob isAdd ttl tasksDeviceA user orgId devAMachineID devAOid devBOid
                   ''deviceAconf'') s of
           (Inl err, s1) \<Rightarrow> (Inl failure, s1)
         | (Inr jobA, s1) \<Rightarrow>
             (case addJob (jobBErr e)
                     (tunnelJob isAdd ttl tasksDeviceB user orgId devBMachineID devAOid devBOid
                        ''deviceBconf'') s1 of
                (Inl err, s2) \<Rightarrow> (Inl failure, s2)
              | (Inr jobB, s2) \<Rightarrow> (Inr [jobA, jobB], s2)))"

definition tunnelTitle :: "string \<Rightarrow> device \<Rightarrow> interface \<Rightarrow> device \<Rightarrow> interface \<Rightarrow> string" where
  "tunnelTitle verb devA deviceAIntf devB deviceBIntf =
     verb @ '' tunnel between ('' @ hostname devA @ '','' @ ifcName deviceAIntf
       @ '') and ('' @ hostname devB @ '','' @ ifcName deviceBIntf @ '')''"

definition addTunnel ::
  "env \<Rightarrow> string \<Rightarrow> oid \<Rightarrow> nat \<Rightarrow> device \<Rightarrow> device \<Rightarrow> interface \<Rightarrow> interface \<Rightarrow> store
     \<Rightarrow> (error + job list) \<times> store" where
  "addTunnel e user orgId tunnelnum devA devB deviceAIntf deviceBIntf s =
     (case tunnelsUpsert (upsertErr e) (newOid e) orgId tunnelnum
             (devId devA) (ifcId deviceAIntf) (devId devB) (ifcId deviceBIntf) s of
        (Inl err, s1) \<Rightarrow> (Inl err, s1)
      | (Inr u, s1) \<Rightarrow>
          (case prepareTunnelAddJob (randomKeys e) tunnelnum deviceAIntf deviceBIntf
                  (agentVersion devB) of
             (tasksDeviceA, tasksDeviceB) \<Rightarrow>
               queueTunnel e True (tunnelTitle ''Create'' devA deviceAIntf devB deviceBIntf)
                 tasksDeviceA tasksDeviceB user orgId (machineId devA) (machineId devB)
                 (devId devA) (devId devB) s1))"

definition delTunnel ::
  "env \<Rightarrow> string \<Rightarrow> oid \<Rightarrow> nat \<Rightarrow> device \<Rightarrow> device \<Rightarrow> interface \<Rightarrow> interface \<Rightarrow> store
     \<Rightarrow> (error + job list) \<times> store" where
  "delTunnel e user orgId tunnelnum devA devB deviceAIntf deviceBIntf s =
     (case prepareTunnelRemoveJob tunnelnum deviceAIntf deviceBIntf of
        (tasksDeviceA, tasksDeviceB) \<Rightarrow>
          queueTunnel e False (tunnelTitle ''Delete'' devA deviceAIntf devB deviceBIntf)
            tasksDeviceA tasksDeviceB user orgId (machineId devA) (machineId devB)
            (devId devA) (devId devB) s)"

section \<open>Creating one tunnel: \<^verbatim>\<open>getTunnelPromise\<close>\<close>

text \<open>The promise resolves with \<^verbatim>\<open>true\<close> when the tunnel is skipped and with the
  two queued jobs otherwise.\<close>

datatype tunnelResult = Skipped | TunnelJobs "job list"

text \<open>The end of a handler \<^verbatim>\<open>const tunnelJobs = await addTunnel(...); return
  resolve(tunnelJobs)\<close>: when \<^verbatim>\<open>addTunnel\<close> throws, the promise ends as the
  enclosing chain decides (\<open>onThrow\<close>).\<close>

definition resolveJobs ::
  "tunnelResult promise \<Rightarrow> (error + job list) \<times> store \<Rightarrow> tunnelResult promise \<times> store" where
  "resolveJobs onThrow r =
     (case r of
        (Inr tunnelJobs, s) \<Rightarrow> (Resolved (TunnelJobs tunnelJobs), s)
      | (Inl err, s) \<Rightarrow> (onThrow, s))"

text \<open>
  The handler of the result of \<^verbatim>\<open>tunnelsModel.find\<close> (source lines 256-363). A
  rejection of the second counter update is handled, but the chain of the second attempt
  has no \<^verbatim>\<open>.catch\<close>: when \<^verbatim>\<open>addTunnel\<close> throws there, neither
  \<^verbatim>\<open>resolve\<close> nor \<^verbatim>\<open>reject\<close> is ever called and the promise stays pending.
\<close>

definition tunnelFoundThen ::
  "env \<Rightarrow> string \<Rightarrow> oid \<Rightarrow> device \<Rightarrow> device \<Rightarrow> interface \<Rightarrow> interface \<Rightarrow> tunnel list \<Rightarrow> store
     \<Rightarrow> tunnelResult promise \<times> store" where
  "tunnelFoundThen e userName orgId devA devB deviceAIntf deviceBIntf tunnelFound s =
     (if length tunnelFound = 0 then
        (case tunnelsFindOneAndUpdate (claimErr e) (\<lambda>t. isActive t = False \<and> org t = orgId)
                (\<lambda>t. t\<lparr>isActive := True\<rparr>) s of
           (Inl err, s1) \<Rightarrow> (Rejected ''Tunnels search error'', s1)
         | (Inr (Some tunnelResp), s1) \<Rightarrow>
             resolveJobs (Rejected ''Tunnel ID not found'')
               (addTunnel e userName orgId (num tunnelResp) devA devB deviceAIntf deviceBIntf s1)
         | (Inr None, s1) \<Rightarrow>
             (case tunnelIDsFindOneAndUpdate (incErr e) orgId s1 of
                (Inr idResp, s2) \<Rightarrow>
                  resolveJobs (Rejected ''Tunnel ID not found'')
                    (addTunnel e userName orgId idResp devA devB deviceAIntf deviceBIntf s2)
              | (Inl err, s2) \<Rightarrow>
                  if errCode err = Some 11000 then
                    (case tunnelIDsFindOneAndUpdate (incErr2 e) orgId s2 of
                       (Inr idResp, s3) \<Rightarrow>
                         resolveJobs Pending
                           (addTunnel e userName orgId idResp devA devB deviceAIntf deviceBIntf s3)
                     | (Inl err2, s3) \<Rightarrow> (Rejected ''Tunnel ID not found'', s3))
                  else (Rejected ''Tunnel ID not found'', s2)))
      else (Resolved Skipped, s))"

definition findSettled ::
  "env \<Rightarrow> string \<Rightarrow> oid \<Rightarrow> device \<Rightarrow> device \<Rightarrow> interface \<Rightarrow> interface
     \<Rightarrow> error + tunnel list \<Rightarrow> store \<Rightarrow> tunnelResult promise \<times> store" where
  "findSettled e userName orgId devA devB deviceAIntf deviceBIntf found s =
     (case found of
        Inl err \<Rightarrow> (Rejected ''Tunnels find error'', s)
      | Inr tunnelFound \<Rightarrow>
          tunnelFoundThen e userName orgId devA devB deviceAIntf deviceBIntf tunnelFound s)"

text \<open>One promise run on its own: the query for an active tunnel between the two
  devices, then the handler of its result.\<close>

definition getTunnelPromise ::
  "env \<Rightarrow> string \<Rightarrow> oid \<Rightarrow> device \<Rightarrow> device \<Rightarrow> interface \<Rightarrow> interface \<Rightarrow> store
     \<Rightarrow> tunnelResult promise \<times> store" where
  "getTunnelPromise e userName orgId devA devB deviceAIntf deviceBIntf s =
     (case tunnelsFind (findErr e) orgId (devId devA) (devId devB) s of
        (found, s1) \<Rightarrow> findSettled e userName orgId devA devB deviceAIntf deviceBIntf found s1)"

section \<open>Mesh add: \<^verbatim>\<open>applyTunnelAdd\<close>\<close>

record user =
  username :: string
  defaultOrg :: oid

type_synonym tunnelTask = "device \<times> device \<times> interface \<times> interface"

definition wanIntfs :: "device \<Rightarrow> interface list" where
  "wanIntfs d = filter (\<lambda>intf. isAssigned intf = True \<and> ifcType intf = ''WAN'') (interfaces d)"

text \<open>
  The two nested \<^verbatim>\<open>for\<close> loops over the device pairs. \<open>dbTasks\<close> collects the
  arguments of the calls \<^verbatim>\<open>dbTasks.push(getTunnelPromise(...))\<close>; the second
  component is \<open>True\<close> when the loop left with the version-mismatch \<^verbatim>\<open>throw\<close>.
  \<open>compatible\<close> is \<^verbatim>\<open>routerVersionsCompatible\<close> (\<^verbatim>\<open>versioning\<close>, not in
  src/), a parameter of the model.
\<close>

fun innerLoop ::
  "(string \<Rightarrow> string \<Rightarrow> bool) \<Rightarrow> device \<Rightarrow> device list \<Rightarrow> tunnelTask list
     \<Rightarrow> tunnelTask list \<times> bool" where
  "innerLoop compatible devA [] dbTasks = (dbTasks, False)"
| "innerLoop compatible devA (devB # rest) dbTasks =
     (if \<not> compatible (routerVersion devA) (routerVersion devB) then (dbTasks, True)
      else innerLoop compatible devA rest
             (if length (wanIntfs devA) \<noteq> 0 \<and> length (wanIntfs devB) \<noteq> 0
              then dbTasks @ concat (map (\<lambda>wanIfcA. map (\<lambda>wanIfcB. (devA, devB, wanIfcA, wanIfcB))
                                                       (wanIntfs devB)) (wanIntfs devA))
              else dbTasks))"

fun outerLoop ::
  "(string \<Rightarrow> string \<Rightarrow> bool) \<Rightarrow> device list \<Rightarrow> tunnelTask list \<Rightarrow> tunnelTask list \<times> bool" where
  "outerLoop compatible [] dbTasks = (dbTasks, False)"
| "outerLoop compatible (devA # rest) dbTasks =
     (case innerLoop compatible devA rest dbTasks of
        (dbTasks', True) \<Rightarrow> (dbTasks', True)
      | (dbTasks', False) \<Rightarrow> outerLoop compatible rest dbTasks')"

text \<open>
  A call \<^verbatim>\<open>getTunnelPromise(...)\<close> runs the promise's executor at once, and the
  executor issues the \<^verbatim>\<open>find\<close> query: when the loops are left, every promise
  pushed so far has its query under way, and no handler has run yet. Promise \<open>k\<close> of
  the call runs in the surroundings \<open>envs k\<close>.
\<close>

fun startPromises ::
  "(nat \<Rightarrow> env) \<Rightarrow> oid \<Rightarrow> nat \<Rightarrow> tunnelTask list \<Rightarrow> store
     \<Rightarrow> (tunnelTask \<times> (error + tunnel list)) list \<times> store" where
  "startPromises envs orgId k [] s = ([], s)"
| "startPromises envs orgId k ((devA, devB, intfA, intfB) # rest) s =
     (case tunnelsFind (findErr (envs k)) orgId (devId devA) (devId devB) s of
        (found, s1) \<Rightarrow>
          (case startPromises envs orgId (Suc k) rest s1 of
             (started, s2) \<Rightarrow> (((devA, devB, intfA, intfB), found) # started, s2)))"

text \<open>
  Between two calls a promise waits for the answer to the call it issued last; other
  promises run meanwhile. A stage holds the answer a promise waits for: to the query, to
  the claim of an inactive record, to the first and the second counter update, to the
  upsert of \<^verbatim>\<open>addTunnel\<close> (with the tunnel number), to the job of device A (with the
  tasks of device B) and to the job of device B (with the job of device A). The stages
  inside \<^verbatim>\<open>addTunnel\<close> also hold how the promise ends when \<^verbatim>\<open>addTunnel\<close> throws.
\<close>

datatype stage =
  FindDone "error + tunnel list"
  | ClaimDone "error + tunnel option"
  | IncDone "error + nat"
  | Inc2Done "error + nat"
  | UpsertDone "tunnelResult promise" nat "error + unit"
  | JobADone "tunnelResult promise" "task list" "error + job"
  | JobBDone "tunnelResult promise" job "error + job"
  | Settled "tunnelResult promise"

text \<open>The first call of \<^verbatim>\<open>addTunnel\<close>.\<close>

definition startAddTunnel ::
  "env \<Rightarrow> oid \<Rightarrow> device \<Rightarrow> device \<Rightarrow> interface \<Rightarrow> interface \<Rightarrow> tunnelResult promise \<Rightarrow> nat
     \<Rightarrow> store \<Rightarrow> stage \<times> store" where
  "startAddTunnel e orgId devA devB deviceAIntf deviceBIntf onThrow tunnelnum s =
     (case tunnelsUpsert (upsertErr e) (newOid e) orgId tunnelnum
             (devId devA) (ifcId deviceAIntf) (devId devB) (ifcId deviceBIntf) s of
        (r, s1) \<Rightarrow> (UpsertDone onThrow tunnelnum r, s1))"

text \<open>
  One handler: the promise receives the answer it waits for and settles or issues its next
  call. These are the handlers of \<^verbatim>\<open>getTunnelPromise\<close>, \<^verbatim>\<open>addTunnel\<close> and
  \<^verbatim>\<open>queueTunnel\<close>, cut at every \<^verbatim>\<open>.then\<close> and \<^verbatim>\<open>await\<close>.
\<close>

fun stepPromise ::
  "env \<Rightarrow> string \<Rightarrow> oid \<Rightarrow> device \<Rightarrow> device \<Rightarrow> interface \<Rightarrow> interface \<Rightarrow> stage \<Rightarrow> store
     \<Rightarrow> stage \<times> store" where
  "stepPromise e userName orgId devA devB iA iB (FindDone (Inl err)) s =
     (Settled (Rejected ''Tunnels find error''), s)"
| "stepPromise e userName orgId devA devB iA iB (FindDone (Inr tunnelFound)) s =
     (if length tunnelFound = 0 then
        (case tunnelsFindOneAndUpdate (claimErr e) (\<lambda>t. isActive t = False \<and> org t = orgId)
                (\<lambda>t. t\<lparr>isActive := True\<rparr>) s of
           (r, s1) \<Rightarrow> (ClaimDone r, s1))
      else (Settled (Resolved Skipped), s))"
| "stepPromise e userName orgId devA devB iA iB (ClaimDone (Inl err)) s =
     (Settled (Rejected ''Tunnels search error''), s)"
| "stepPromise e userName orgId devA devB iA iB (ClaimDone (Inr (Some tunnelResp))) s =
     startAddTunnel e orgId devA devB iA iB (Rejected ''Tunnel ID not found'') (num tunnelResp) s"
| "stepPromise e userName orgId devA devB iA iB (ClaimDone (Inr None)) s =
     (case tunnelIDsFindOneAndUpdate (incErr e) orgId s of
        (r, s1) \<Rightarrow> (IncDone r, s1))"
| "stepPromise e userName orgId devA devB iA iB (IncDone (Inr idResp)) s =
     startAddTunnel e orgId devA devB iA iB (Rejected ''Tunnel ID not found'') idResp s"
| "stepPromise e userName orgId devA devB iA iB (IncDone (Inl err)) s =
     (if errCode err = Some 11000 then
        (case tunnelIDsFindOneAndUpdate (incErr2 e) orgId s of
           (r, s1) \<Rightarrow> (Inc2Done r, s1))
      else (Settled (Rejected ''Tunnel ID not found''), s))"
| "stepPromise e userName orgId devA devB iA iB (Inc2Done (Inr idResp)) s =
     startAddTunnel e orgId devA devB iA iB Pending idResp s"
| "stepPromise e userName orgId devA devB iA iB (Inc2Done (Inl err2)) s =
     (Settled (Rejected ''Tunnel ID not found''), s)"
| "stepPromise e userName orgId devA devB iA iB (UpsertDone onThrow tunnelnum (Inl err)) s =
     (Settled onThrow, s)"
| "stepPromise e userName orgId devA devB iA iB (UpsertDone onThrow tunnelnum (Inr u)) s =
     (case prepareTunnelAddJob (randomKeys e) tunnelnum iA iB (agentVersion devB) of
        (tasksDeviceA, tasksDeviceB) \<Rightarrow>
          (case addJob (jobAErr e)
                  (tunnelJob True (tunnelTitle ''Create'' devA iA devB iB) tasksDeviceA userName
                     orgId (machineId devA) (devId devA) (devId devB) ''deviceAconf'') s of
             (r, s1) \<Rightarrow> (JobADone onThrow tasksDeviceB r, s1)))"
| "stepPromise e userName orgId devA devB iA iB (JobADone onThrow tasksDeviceB (Inl err)) s =
     (Settled onThrow, s)"
| "stepPromise e userName orgId devA devB iA iB (JobADone onThrow tasksDeviceB (Inr jobA)) s =
     (case addJob (jobBErr e)
             (tunnelJob True (tunnelTitle ''Create'' devA iA devB iB) tasksDeviceB userName
                orgId (machineId devB) (devId devA) (devId devB) ''deviceBconf'') s of
        (r, s1) \<Rightarrow> (JobBDone onThrow jobA r, s1))"
| "stepPromise e userName orgId devA devB iA iB (JobBDone onThrow jobA (Inl err)) s =
     (Settled onThrow, s)"
| "stepPromise e userName orgId devA devB iA iB (JobBDone onThrow jobA (Inr jobB)) s =
     (Settled (Resolved (TunnelJobs [jobA, jobB])), s)"
| "stepPromise e userName orgId devA devB iA iB (Settled p) s = (Settled p, s)"

text \<open>
  The promises of one call take turns. The store and the queue answer the calls in the
  order in which they were issued, so in one round every promise, in the order of the
  pushes, receives the answer it waits for and runs one handler.
\<close>

fun stepAll ::
  "(nat \<Rightarrow> env) \<Rightarrow> string \<Rightarrow> oid \<Rightarrow> nat \<Rightarrow> (tunnelTask \<times> stage) list \<Rightarrow> store
     \<Rightarrow> (tunnelTask \<times> stage) list \<times> store" where
  "stepAll envs userName orgId k [] s = ([], s)"
| "stepAll envs userName orgId k (((devA, devB, intfA, intfB), st) # rest) s =
     (case stepPromise (envs k) userName orgId devA devB intfA intfB st s of
        (st', s1) \<Rightarrow>
          (case stepAll envs userName orgId (Suc k) rest s1 of
             (rest', s2) \<Rightarrow> (((devA, devB, intfA, intfB), st') # rest', s2)))"

fun rounds ::
  "nat \<Rightarrow> (nat \<Rightarrow> env) \<Rightarrow> string \<Rightarrow> oid \<Rightarrow> (tunnelTask \<times> stage) list \<Rightarrow> store
     \<Rightarrow> (tunnelTask \<times> stage) list \<times> store" where
  "rounds 0 envs userName orgId ps s = (ps, s)"
| "rounds (Suc n) envs userName orgId ps s =
     (case stepAll envs userName orgId 0 ps s of
        (ps', s1) \<Rightarrow> rounds n envs userName orgId ps' s1)"

text \<open>How a promise has ended; a promise that is never settled stays pending.\<close>

fun outcome :: "stage \<Rightarrow> tunnelResult promise" where
  "outcome (Settled p) = p"
| "outcome st = Pending"

text \<open>The number of handlers a promise at this stage can still run.\<close>

fun remaining :: "stage \<Rightarrow> nat" where
  "remaining (FindDone r) = 7"
| "remaining (ClaimDone r) = 6"
| "remaining (IncDone r) = 5"
| "remaining (Inc2Done r) = 4"
| "remaining (UpsertDone onThrow tunnelnum r) = 3"
| "remaining (JobADone onThrow tasksDeviceB r) = 2"
| "remaining (JobBDone onThrow jobA r) = 1"
| "remaining (Settled p) = 0"

text \<open>
  After its query a promise runs at most seven handlers (for the answers to the query,
  the claim, two counter updates, the upsert and the two jobs), so seven rounds settle
  every promise: \<open>rounds_settle\<close> below.
\<close>

definition settlePromises ::
  "(nat \<Rightarrow> env) \<Rightarrow> string \<Rightarrow> oid \<Rightarrow> (tunnelTask \<times> (error + tunnel list)) list \<Rightarrow> store
     \<Rightarrow> tunnelResult promise list \<times> store" where
  "settlePromises envs userName orgId started s =
     (case rounds 7 envs userName orgId (map (\<lambda>(task, found). (task, FindDone found)) started) s of
        (ps, s') \<Rightarrow> (map (\<lambda>(task, st). outcome st) ps, s'))"

definition runPromises ::
  "(nat \<Rightarrow> env) \<Rightarrow> string \<Rightarrow> oid \<Rightarrow> tunnelTask list \<Rightarrow> store
     \<Rightarrow> tunnelResult promise list \<times> store" where
  "runPromises envs userName orgId dbTasks s =
     (case startPromises envs orgId 0 dbTasks s of
        (started, s1) \<Rightarrow> settlePromises envs userName orgId started s1)"

text \<open>\<^verbatim>\<open>Promise.all\<close>: rejected as soon as one promise is rejected (here: the first
  in the list), pending while one is pending, resolved with all values otherwise.\<close>

fun promiseAll :: "'a promise list \<Rightarrow> 'a list promise" where
  "promiseAll [] = Resolved []"
| "promiseAll (Rejected m # ps) = Rejected m"
| "promiseAll (Resolved v # ps) =
     (case promiseAll ps of
        Resolved vs \<Rightarrow> Resolved (v # vs)
      | Rejected m \<Rightarrow> Rejected m
      | Pending \<Rightarrow> Pending)"
| "promiseAll (Pending # ps) =
     (case promiseAll ps of
        Rejected m \<Rightarrow> Rejected m
      | Resolved vs \<Rightarrow> Pending
      | Pending \<Rightarrow> Pending)"

text \<open>
  \<^verbatim>\<open>applyTunnelAdd(devices, user, data)\<close>, with \<open>selectedDevices\<close> the keys of
  \<^verbatim>\<open>data.devices\<close>. The result is the outcome of the \<^verbatim>\<open>async\<close> function and
  the store once the promises it started have run. A version-mismatch \<^verbatim>\<open>throw\<close>
  rejects the call at once, but the promises pushed before it are not cancelled: they are
  no longer awaited and run on.
\<close>

definition applyTunnelAdd ::
  "(string \<Rightarrow> string \<Rightarrow> bool) \<Rightarrow> (nat \<Rightarrow> env) \<Rightarrow> device list option \<Rightarrow> user \<Rightarrow> oid list option
     \<Rightarrow> store \<Rightarrow> unit promise \<times> store" where
  "applyTunnelAdd compatible envs devices usr selectedDevices s =
     (let opDevices = (case (devices, selectedDevices) of
                         (Some ds, Some sel) \<Rightarrow> filter (\<lambda>d. devId d \<in> set sel) ds
                       | _ \<Rightarrow> []);
          devicesLen = length opDevices
      in if devicesLen \<ge> 2 then
           (case outerLoop compatible opDevices [] of
              (dbTasks, True) \<Rightarrow>
                (Rejected ''Cannot create tunnels between devices with mismatching router versions'',
                 snd (runPromises envs (username usr) (defaultOrg usr) dbTasks s))
            | (dbTasks, False) \<Rightarrow>
                (case runPromises envs (username usr) (defaultOrg usr) dbTasks s of
                   (ps, s') \<Rightarrow>
                     (case promiseAll ps of
                        Resolved vs \<Rightarrow> (Resolved (), s')
                      | Rejected m \<Rightarrow> (Rejected m, s')
                      | Pending \<Rightarrow> (Pending, s'))))
         else (Rejected ''At least 2 devices must be selected to create tunnels'', s))"

section \<open>The completion callback\<close>

text \<open>\<^verbatim>\<open>update[target] = isAdd\<close> on the boolean paths of a tunnel record; the
  callers in this file pass \<^verbatim>\<open>'deviceAconf'\<close> or \<^verbatim>\<open>'deviceBconf'\<close>. A name
  that is no boolean path of the record changes nothing in the model.\<close>

definition setPath :: "string \<Rightarrow> bool \<Rightarrow> tunnel \<Rightarrow> tunnel" where
  "setPath target v t =
     (if target = ''deviceAconf'' then t\<lparr>deviceAconf := v\<rparr>
      else if target = ''deviceBconf'' then t\<lparr>deviceBconf := v\<rparr>
      else if target = ''isActive'' then t\<lparr>isActive := v\<rparr>
      else t)"

definition updateTunnelIsConnected ::
  "env \<Rightarrow> oid \<Rightarrow> oid \<Rightarrow> oid \<Rightarrow> string \<Rightarrow> bool \<Rightarrow> store \<Rightarrow> (error + unit) \<times> store" where
  "updateTunnelIsConnected e orgId devAOid devBOid target isAdd s =
     (case tunnelsFindOneAndUpdate (connectedErr e)
             (\<lambda>t. deviceA t = devAOid \<and> deviceB t = devBOid \<and> org t = orgId)
             (setPath target isAdd) s of
        (Inl err, s1) \<Rightarrow> (Inl err, s1)
      | (Inr None, s1) \<Rightarrow> (Inl (Error ''Update tunnel connected status failure''), s1)
      | (Inr (Some resp), s1) \<Rightarrow> (Inr (), s1))"

text \<open>The job result \<^verbatim>\<open>res\<close>: a path that is missing is \<open>None\<close>; a path is
  truthy when it is present and not the empty string.\<close>

record jobResult =
  cbDeviceA :: "oid option"
  cbDeviceB :: "oid option"
  cbTarget :: "string option"
  cbUsername :: "string option"
  cbOrg :: "oid option"

definition completeTunnelAdd :: "env \<Rightarrow> nat \<Rightarrow> jobResult option \<Rightarrow> store \<Rightarrow> store" where
  "completeTunnelAdd e jobId res s =
     (case res of
        None \<Rightarrow> s
      | Some r \<Rightarrow>
          (case (cbDeviceA r, cbDeviceB r, cbTarget r, cbUsername r, cbOrg r) of
             (Some a, Some b, Some target, Some userName, Some orgId) \<Rightarrow>
               if a = [] \<or> b = [] \<or> target = [] \<or> userName = [] \<or> orgId = [] then s
               else snd (updateTunnelIsConnected e orgId a b target True s)
           | _ \<Rightarrow> s))"

section \<open>Mesh delete: \<^verbatim>\<open>applyTunnelDel\<close>\<close>

text \<open>\<^verbatim>\<open>tunnelsModel.findOne(query).populate('deviceA').populate('deviceB')\<close>: the
  first record matching the query; \<open>populateDevice\<close> is the device that a reference of
  the record is replaced by.\<close>

definition tunnelsFindOne ::
  "error option \<Rightarrow> (tunnel \<Rightarrow> bool) \<Rightarrow> store \<Rightarrow> (error + tunnel option) \<times> store" where
  "tunnelsFindOne fault q s =
     (case fault of
        Some e \<Rightarrow> (Inl e, logCall TunnelsFindOne s)
      | None \<Rightarrow> (Inr (find q (tunnels s)), logCall TunnelsFindOne s))"

definition populateDevice :: "oid \<Rightarrow> store \<Rightarrow> device option" where
  "populateDevice ref s = find (\<lambda>d. devId d = ref) (devicesColl s)"

text \<open>Reading a property of \<^verbatim>\<open>null\<close> or \<^verbatim>\<open>undefined\<close> (no tunnel found, a
  device that no longer exists, an interface that the device no longer has) throws a
  \<^verbatim>\<open>TypeError\<close>.\<close>

definition oneTunnelDel ::
  "env \<Rightarrow> oid \<Rightarrow> string \<Rightarrow> oid \<Rightarrow> store \<Rightarrow> (error + job list) \<times> store" where
  "oneTunnelDel e tunnelID userName orgId s =
     (case tunnelsFindOne (findOneErr e)
             (\<lambda>t. tid t = tunnelID \<and> isActive t = True \<and> org t = orgId) s of
        (Inl err, s1) \<Rightarrow> (Inl err, s1)
      | (Inr None, s1) \<Rightarrow> (Inl TypeError, s1)
      | (Inr (Some tunnelResp), s1) \<Rightarrow>
          (case (populateDevice (deviceA tunnelResp) s1, populateDevice (deviceB tunnelResp) s1) of
             (Some devA, Some devB) \<Rightarrow>
               (case (find (\<lambda>ifc. ifcId ifc = interfaceA tunnelResp) (interfaces devA),
                      find (\<lambda>ifc. ifcId ifc = interfaceB tunnelResp) (interfaces devB)) of
                  (Some deviceAIntf, Some deviceBIntf) \<Rightarrow>
                    (case delTunnel e userName orgId (num tunnelResp) devA devB
                            deviceAIntf deviceBIntf s1 of
                       (Inl err, s2) \<Rightarrow> (Inl err, s2)
                     | (Inr tunnelJobs, s2) \<Rightarrow>
                         (case tunnelsFindOneAndUpdate (deactivateErr e)
                                 (\<lambda>t. tid t = tunnelID \<and> org t = orgId)
                                 (\<lambda>t. t\<lparr>isActive := False, deviceAconf := False,
                                        deviceBconf := False\<rparr>) s2 of
                            (Inl err, s3) \<Rightarrow> (Inl err, s3)
                          | (Inr None, s3) \<Rightarrow> (Inl (Error ''Error deleting tunnel''), s3)
                          | (Inr (Some resp), s3) \<Rightarrow> (Inr tunnelJobs, s3)))
                | _ \<Rightarrow> (Inl TypeError, s1))
           | _ \<Rightarrow> (Inl TypeError, s1)))"

text \<open>
  \<^verbatim>\<open>applyTunnelDel(devices, user, data)\<close>, with \<open>selectedTunnels\<close> the keys of
  \<^verbatim>\<open>data.tunnels\<close> (\<open>None\<close>: \<^verbatim>\<open>data.tunnels\<close> is missing and
  \<^verbatim>\<open>Object.keys\<close> throws). The \<^verbatim>\<open>if\<close> has no \<^verbatim>\<open>else\<close>: when it
  fails the function returns.
\<close>

definition applyTunnelDel ::
  "env \<Rightarrow> device list option \<Rightarrow> user \<Rightarrow> oid list option \<Rightarrow> store \<Rightarrow> unit promise \<times> store" where
  "applyTunnelDel e devices usr selectedTunnels s =
     (case selectedTunnels of
        None \<Rightarrow> (Rejected ''Cannot convert undefined or null to object'', s)
      | Some tunnelIds \<Rightarrow>
          if devices \<noteq> None \<and> length tunnelIds = 1 then
            (case oneTunnelDel e (tunnelIds ! 0) (username usr) (defaultOrg usr) s of
               (Inl err, s') \<Rightarrow>
                 (Rejected ''Attempt to delete more than one tunnel or no devices found'', s')
             | (Inr tunnelJobs, s') \<Rightarrow> (Resolved (), s'))
          else (Resolved (), s))"

section \<open>Concrete devices and stores\<close>

text \<open>Inputs on which the theorems below are instantiated and the code is evaluated.\<close>

definition exEnv :: env where
  "exEnv = \<lparr> findErr = None, claimErr = None, incErr = None, incErr2 = None,
             upsertErr = None, jobAErr = None, jobBErr = None, findOneErr = None,
             deactivateErr = None, connectedErr = None,
             randomKeys = \<lparr> key1 = ''k1'', key2 = ''k2'', key3 = ''k3'', key4 = ''k4'' \<rparr>,
             newOid = ''t9'' \<rparr>"

definition exUser :: user where
  "exUser = \<lparr> username = ''admin'', defaultOrg = ''org1'' \<rparr>"

definition exIfc :: "oid \<Rightarrow> string \<Rightarrow> string \<Rightarrow> string \<Rightarrow> interface" where
  "exIfc i nm ip pub = \<lparr> ifcId = i, ifcName = nm, isAssigned = True, ifcType = ''WAN'',
                         IPv4 = ip, PublicIP = pub \<rparr>"

definition exIfcA :: interface where
  "exIfcA = exIfc ''ia'' ''eth0'' ''192.168.1.1'' []"

definition exIfcA2 :: interface where
  "exIfcA2 = exIfc ''ia2'' ''eth1'' ''192.168.1.9'' []"

definition exIfcB :: interface where
  "exIfcB = exIfc ''ib'' ''eth0'' ''192.168.2.1'' ''8.8.4.4''"

definition exIfcC :: interface where
  "exIfcC = exIfc ''ic'' ''eth0'' ''192.168.3.1'' []"

definition exDevA :: device where
  "exDevA = \<lparr> devId = ''da'', hostname = ''hostA'', machineId = ''ma'', routerVersion = ''1.2.0'',
              agentVersion = ''1.2.0'', interfaces = [exIfcA] \<rparr>"

definition exDevA2 :: device where
  "exDevA2 = exDevA\<lparr>interfaces := [exIfcA, exIfcA2]\<rparr>"

definition exDevB :: device where
  "exDevB = \<lparr> devId = ''db'', hostname = ''hostB'', machineId = ''mb'', routerVersion = ''1.2.0'',
              agentVersion = ''1.2.0'', interfaces = [exIfcB] \<rparr>"

definition exDevC :: device where
  "exDevC = \<lparr> devId = ''dc'', hostname = ''hostC'', machineId = ''mc'', routerVersion = ''2.0.0'',
              agentVersion = ''2.0.0'', interfaces = [exIfcC] \<rparr>"

definition exTunnel :: "oid \<Rightarrow> nat \<Rightarrow> bool \<Rightarrow> oid \<Rightarrow> oid \<Rightarrow> oid \<Rightarrow> oid \<Rightarrow> tunnel" where
  "exTunnel i n active a ia b ib =
     \<lparr> tid = i, org = ''org1'', num = n, isActive = active, deviceAconf = False,
       deviceBconf = False, deviceA = a, interfaceA = ia, deviceB = b, interfaceB = ib \<rparr>"

definition exStore :: "tunnel list \<Rightarrow> (oid \<rightharpoonup> nat) \<Rightarrow> store" where
  "exStore ts ids = \<lparr> tunnels = ts, tunnelids = ids, devicesColl = [exDevA, exDevB, exDevC],
                      queue = [], calls = [] \<rparr>"

text \<open>No tunnel and no counter yet.\<close>

definition exStoreEmpty :: store where
  "exStoreEmpty = exStore [] Map.empty"

text \<open>The counter of the organization stands at 5, no tunnel record is inactive.\<close>

definition exStoreFive :: store where
  "exStoreFive = exStore [exTunnel ''t5'' 5 True ''dc'' ''ic'' ''dx'' ''ix''] [''org1'' \<mapsto> 5]"

text \<open>The counter of the organization has reached 15000.\<close>

definition exStoreFull :: store where
  "exStoreFull = exStore [] [''org1'' \<mapsto> 15000]"

text \<open>Two deleted tunnels (numbers 7 and 3) of the organization wait for reuse.\<close>

definition exStoreFreed :: store where
  "exStoreFreed =
     exStore [exTunnel ''t5'' 5 True ''dc'' ''ic'' ''dx'' ''ix'',
              exTunnel ''t7'' 7 False ''da'' ''ia'' ''db'' ''ib'',
              exTunnel ''t3'' 3 False ''da'' ''ia'' ''dc'' ''ic''] [''org1'' \<mapsto> 9]"

text \<open>Devices A and B are connected by an active tunnel between the interfaces
  \<open>ia\<close> and \<open>ib\<close>.\<close>

definition exStoreConnected :: store where
  "exStoreConnected = exStore [exTunnel ''t1'' 1 True ''da'' ''ia'' ''db'' ''ib''] [''org1'' \<mapsto> 1]"

text \<open>Three records between the devices A and B, the first of them inactive.\<close>

definition exStoreThree :: store where
  "exStoreThree =
     exStore [exTunnel ''t2'' 2 True ''db'' ''ib'' ''da'' ''ia'',
              exTunnel ''t7'' 7 False ''da'' ''ia'' ''db'' ''ib'',
              exTunnel ''t8'' 8 True ''da'' ''ia'' ''db'' ''ib''] [''org1'' \<mapsto> 9]"

definition exResult :: "string \<Rightarrow> jobResult" where
  "exResult target = \<lparr> cbDeviceA = Some ''da'', cbDeviceB = Some ''db'', cbTarget = Some target,
                       cbUsername = Some ''admin'', cbOrg = Some ''org1'' \<rparr>"

text \<open>The claim's words for "an active tunnel between these two interfaces", in either
  ordering; the code has no such query.\<close>

definition activeBetweenInterfaces :: "oid \<Rightarrow> oid \<Rightarrow> oid \<Rightarrow> tunnel \<Rightarrow> bool" where
  "activeBetweenInterfaces orgId ia ib t =
     (((interfaceA t = ia \<and> interfaceB t = ib) \<or> (interfaceB t = ia \<and> interfaceA t = ib))
      \<and> isActive t = True \<and> org t = orgId)"

text \<open>Every promise of a call runs in \<open>exEnv\<close>.\<close>

definition exEnvs :: "nat \<Rightarrow> env" where
  "exEnvs k = exEnv"

text \<open>As \<open>exEnvs\<close>, but the second promise of a call gets another identity for the
  record it inserts.\<close>

definition exEnvsTwo :: "nat \<Rightarrow> env" where
  "exEnvsTwo k = (if k = 0 then exEnv else exEnv\<lparr>newOid := ''t10''\<rparr>)"

text \<open>An instance of the parameter \<^verbatim>\<open>routerVersionsCompatible\<close>: two router versions
  are compatible when they are equal.\<close>

definition exCompatible :: "string \<Rightarrow> string \<Rightarrow> bool" where
  "exCompatible verA verB = (verA = verB)"

text \<open>The tunnel numbers (\<^verbatim>\<open>tunnel-id\<close>) carried by the tasks of the jobs a promise
  resolved with.\<close>

definition tunnelNumbers :: "tunnelResult promise \<Rightarrow> nat list" where
  "tunnelNumbers p =
     (case p of
        Resolved (TunnelJobs js) \<Rightarrow> concat (map (\<lambda>j. map (\<lambda>t. tunnelId (params t)) (tasks j)) js)
      | _ \<Rightarrow> [])"

text \<open>The claim's words for the number an allocation returns: the value of the counter
  before the increment, a missing counter being created at zero.\<close>

definition preIncrement :: "(oid \<rightharpoonup> nat) \<Rightarrow> oid \<Rightarrow> nat" where
  "preIncrement ids orgId = (case ids orgId of None \<Rightarrow> 0 | Some nextAvailID \<Rightarrow> nextAvailID)"

lemmas exDefs =
  exEnv_def exUser_def exIfc_def exIfcA_def exIfcA2_def exIfcB_def exIfcC_def exDevA_def
  exDevA2_def exDevB_def exDevC_def exTunnel_def exStore_def exStoreEmpty_def exStoreFive_def
  exStoreFull_def exStoreFreed_def exStoreConnected_def exStoreThree_def exResult_def
  exEnvs_def exEnvsTwo_def exCompatible_def

lemmas runDefs =
  getTunnelPromise_def tunnelsFind_def findSettled_def tunnelFoundThen_def
  activeBetweenDevices_def tunnelsFindOneAndUpdate_def tunnelIDsFindOneAndUpdate_def
  logCall_def resolveJobs_def addTunnel_def tunnelsUpsert_def upsertTunnel_def queueTunnel_def
  addJob_def tunnelJob_def prepareTunnelAddJob_def Let_def

section \<open>The store primitives\<close>

lemma findOneAndUpdate_none:
  "\<forall>d\<in>set ds. \<not> q d \<Longrightarrow> findOneAndUpdate q u ds = (None, ds)"
  by (induction ds) auto

lemma findOneAndUpdate_first:
  "\<forall>x\<in>set pre. \<not> q x \<Longrightarrow> q d \<Longrightarrow>
     findOneAndUpdate q u (pre @ d # post) = (Some d, pre @ u d # post)"
  by (induction pre) auto

lemma first_match_split:
  assumes "\<exists>x\<in>set ds. q x"
  shows "\<exists>pre d post. ds = pre @ d # post \<and> (\<forall>x\<in>set pre. \<not> q x) \<and> q d"
  using assms by (metis split_list_first_prop)

lemma upsertTunnel_others:
  "filter (\<lambda>t. \<not> (org t = orgId \<and> num t = n)) (upsertTunnel i orgId n a ia b ib ts)
     = filter (\<lambda>t. \<not> (org t = orgId \<and> num t = n)) ts"
proof (cases "\<exists>x\<in>set ts. org x = orgId \<and> num x = n")
  case False
  then show ?thesis
    by (simp add: upsertTunnel_def findOneAndUpdate_none)
next
  case True
  then obtain pre d post where
    "ts = pre @ d # post" "\<forall>x\<in>set pre. \<not> (org x = orgId \<and> num x = n)" "org d = orgId \<and> num d = n"
    using first_match_split [of ts "\<lambda>x. org x = orgId \<and> num x = n"] by blast
  then show ?thesis
    by (simp add: upsertTunnel_def findOneAndUpdate_first)
qed

lemma tunnel_written:
  "org d = orgId \<Longrightarrow> num d = n \<Longrightarrow>
   d\<lparr> isActive := True, deviceAconf := False, deviceBconf := False,
      deviceA := a, interfaceA := ia, deviceB := b, interfaceB := ib \<rparr>
   = \<lparr> tid = tid d, org = orgId, num = n, isActive = True, deviceAconf = False,
       deviceBconf = False, deviceA = a, interfaceA = ia, deviceB = b, interfaceB = ib \<rparr>"
  by (cases d) simp

lemma upsertTunnel_keyed:
  assumes "distinct (map (\<lambda>t. (org t, num t)) ts)"
  shows "\<exists>i'. filter (\<lambda>t. org t = orgId \<and> num t = n) (upsertTunnel i orgId n a ia b ib ts)
     = [\<lparr> tid = i', org = orgId, num = n, isActive = True, deviceAconf = False,
          deviceBconf = False, deviceA = a, interfaceA = ia, deviceB = b, interfaceB = ib \<rparr>]"
proof (cases "\<exists>x\<in>set ts. org x = orgId \<and> num x = n")
  case False
  then have "filter (\<lambda>t. org t = orgId \<and> num t = n) ts = []"
    by (simp add: filter_empty_conv)
  with False show ?thesis
    by (simp add: upsertTunnel_def findOneAndUpdate_none)
next
  case True
  then obtain pre d post where
    split: "ts = pre @ d # post" and pre: "\<forall>x\<in>set pre. \<not> (org x = orgId \<and> num x = n)"
    and d: "org d = orgId" "num d = n"
    using first_match_split [of ts "\<lambda>x. org x = orgId \<and> num x = n"] by blast
  from assms split have "(org d, num d) \<notin> (\<lambda>t. (org t, num t)) ` set post"
    by simp
  then have post: "\<forall>x\<in>set post. \<not> (org x = orgId \<and> num x = n)"
    using d by blast
  have fpre: "filter (\<lambda>t. org t = orgId \<and> num t = n) pre = []"
    using pre by (simp add: filter_empty_conv)
  have fpost: "filter (\<lambda>t. org t = orgId \<and> num t = n) post = []"
    using post by (simp add: filter_empty_conv)
  have upd: "upsertTunnel i orgId n a ia b ib ts
      = pre @ \<lparr> tid = tid d, org = orgId, num = n, isActive = True, deviceAconf = False,
          deviceBconf = False, deviceA = a, interfaceA = ia, deviceB = b, interfaceB = ib \<rparr> # post"
    unfolding upsertTunnel_def split
    by (subst findOneAndUpdate_first) (use pre d in \<open>simp_all add: tunnel_written\<close>)
  show ?thesis
    unfolding upd by (simp add: fpre fpost)
qed

section \<open>The steps of \<^verbatim>\<open>getTunnelPromise\<close>\<close>

lemma getTunnelPromise_skip:
  assumes "findErr e = None"
    and "\<exists>t\<in>set (tunnels s). activeBetweenDevices orgId (devId devA) (devId devB) t"
  shows "getTunnelPromise e u orgId devA devB iA iB s = (Resolved Skipped, logCall TunnelsFind s)"
proof -
  have "filter (activeBetweenDevices orgId (devId devA) (devId devB)) (tunnels s) \<noteq> []"
    using assms(2) by (simp add: filter_empty_conv)
  then show ?thesis
    using assms(1)
    by (simp add: getTunnelPromise_def tunnelsFind_def findSettled_def tunnelFoundThen_def)
qed

lemma getTunnelPromise_allocates:
  assumes "findErr e = None"
    and "\<forall>t\<in>set (tunnels s). \<not> activeBetweenDevices orgId (devId devA) (devId devB) t"
  shows "getTunnelPromise e u orgId devA devB iA iB s
           = tunnelFoundThen e u orgId devA devB iA iB [] (logCall TunnelsFind s)"
proof -
  have "filter (activeBetweenDevices orgId (devId devA) (devId devB)) (tunnels s) = []"
    using assms(2) by (simp add: filter_empty_conv)
  then show ?thesis
    using assms(1)
    by (simp add: getTunnelPromise_def tunnelsFind_def findSettled_def)
qed

lemma claim_inactive:
  assumes "claimErr e = None"
    and "tunnels s = pre @ r # post"
    and "\<forall>x\<in>set pre. \<not> (isActive x = False \<and> org x = orgId)"
    and "isActive r = False" "org r = orgId"
  shows "tunnelFoundThen e u orgId devA devB iA iB [] s
           = resolveJobs (Rejected ''Tunnel ID not found'')
               (addTunnel e u orgId (num r) devA devB iA iB
                  (logCall TunnelsFindOneAndUpdate (s\<lparr>tunnels := pre @ r\<lparr>isActive := True\<rparr> # post\<rparr>)))"
  using assms
  by (simp add: tunnelFoundThen_def tunnelsFindOneAndUpdate_def findOneAndUpdate_first)

lemma no_inactive:
  assumes "claimErr e = None"
    and "\<forall>x\<in>set (tunnels s). \<not> (isActive x = False \<and> org x = orgId)"
  shows "tunnelFoundThen e u orgId devA devB iA iB [] s
           = (case tunnelIDsFindOneAndUpdate (incErr e) orgId (logCall TunnelsFindOneAndUpdate s) of
                (Inr idResp, s2) \<Rightarrow>
                  resolveJobs (Rejected ''Tunnel ID not found'')
                    (addTunnel e u orgId idResp devA devB iA iB s2)
              | (Inl err, s2) \<Rightarrow>
                  if errCode err = Some 11000 then
                    (case tunnelIDsFindOneAndUpdate (incErr2 e) orgId s2 of
                       (Inr idResp, s3) \<Rightarrow>
                         resolveJobs Pending
                           (addTunnel e u orgId idResp devA devB iA iB s3)
                     | (Inl err2, s3) \<Rightarrow> (Rejected ''Tunnel ID not found'', s3))
                  else (Rejected ''Tunnel ID not found'', s2))"
  using assms
  by (simp add: tunnelFoundThen_def tunnelsFindOneAndUpdate_def findOneAndUpdate_none)

lemma addTunnel_counter:
  "tunnelids (snd (addTunnel e u orgId n devA devB iA iB s)) = tunnelids s
   \<and> count_list (calls (snd (addTunnel e u orgId n devA devB iA iB s))) TunnelIDsFindOneAndUpdate
       = count_list (calls s) TunnelIDsFindOneAndUpdate"
  by (simp add: addTunnel_def tunnelsUpsert_def queueTunnel_def addJob_def logCall_def Let_def
           split: option.splits prod.splits sum.splits)

lemma addTunnel_served:
  assumes "upsertErr e = None" "jobAErr e = None" "jobBErr e = None"
  shows "addTunnel e u orgId n devA devB iA iB s =
     (let ttl = tunnelTitle ''Create'' devA iA devB iB;
          prepared = prepareTunnelAddJob (randomKeys e) n iA iB (agentVersion devB);
          jobA = tunnelJob True ttl (fst prepared) u orgId (machineId devA) (devId devA) (devId devB)
                   ''deviceAconf'';
          jobB = tunnelJob True ttl (snd prepared) u orgId (machineId devB) (devId devA) (devId devB)
                   ''deviceBconf''
      in (Inr [jobA, jobB],
          s\<lparr> tunnels := upsertTunnel (newOid e) orgId n (devId devA) (ifcId iA) (devId devB) (ifcId iB)
                          (tunnels s),
             queue := queue s @ [jobA, jobB],
             calls := calls s @ [TunnelsFindOneAndUpdate, QueueAddJob, QueueAddJob] \<rparr>))"
  using assms
  by (simp add: addTunnel_def tunnelsUpsert_def queueTunnel_def addJob_def logCall_def Let_def
           split: prod.splits)

section \<open>Properties of the parameter generator\<close>

lemma toString_last: "last (toString 10 n) = digitChar (n mod 10)"
  by (subst toString.simps) simp

lemma digitChar_parity:
  assumes "d < 10"
  shows "digitChar d \<in> set ''02468'' \<longleftrightarrow> even d"
proof -
  from assms have "d \<in> {0, 1, 2, 3, 4, 5, 6, 7, 8, 9}" by auto
  then show ?thesis by (auto simp: digitChar_def)
qed

lemma toString_succ_differs: "toString 10 n \<noteq> toString 10 (Suc n)"
proof
  assume eq: "toString 10 n = toString 10 (Suc n)"
  have "digitChar (n mod 10) = digitChar (Suc n mod 10)"
    using arg_cong [OF eq, of last] by (simp only: toString_last)
  then have "even (n mod 10) \<longleftrightarrow> even (Suc n mod 10)"
    using digitChar_parity [of "n mod 10"] digitChar_parity [of "Suc n mod 10"] by simp
  then show False by presburger
qed

text \<open>
  Claim C7. \<^verbatim>\<open>generateTunnelParams\<close> is a function of the tunnel number alone (in
  HOL every call with the same \<open>n\<close> is the same value). With
  \<open>h = (n mod 127 + 1) * 2\<close> and \<open>l = n div 127\<close>, the endpoint addresses are
  \<open>10.100.l.h\<close> and \<open>10.100.l.(h+1)\<close>, they are different strings,
  \<open>sa1 = l * 256 + h\<close>, \<open>sa2 = sa1 + 1\<close>, and \<open>h\<close> is even.
\<close>

theorem generateTunnelParams_spec:
  "(let h = (n mod 127 + 1) * 2; l = n div 127; p = generateTunnelParams n
    in ip1 p = ''10.100.'' @ toString 10 l @ ''.'' @ toString 10 h
     \<and> ip2 p = ''10.100.'' @ toString 10 l @ ''.'' @ toString 10 (h + 1)
     \<and> ip1 p \<noteq> ip2 p
     \<and> sa1 p = l * 256 + h
     \<and> sa2 p = sa1 p + 1
     \<and> even h)"
  using toString_succ_differs [of "(n mod 127 + 1) * 2"]
  by (simp add: generateTunnelParams_def Let_def)

text \<open>
  Claim C8. In the pair of add-tunnel task lists, device A's local SA carries spi
  \<open>sa1\<close> and its remote SA spi \<open>sa2\<close>; device B's local SA is A's local SA (keys 1
  and 2) with spi \<open>sa2\<close>, and device B's remote SA is A's remote SA (keys 3 and 4) with
  spi \<open>sa1\<close>.
\<close>

theorem prepareTunnelAddJob_spi_swap:
  "(let p = generateTunnelParams n;
        saAB = \<lparr> spi = sa1 p, cryptoKey = key1 ks, integrKey = key2 ks,
                 cryptoAlg = ''aes-cbc-128'', integrAlg = ''sha-256-128'' \<rparr>;
        saBA = \<lparr> spi = sa2 p, cryptoKey = key3 ks, integrKey = key4 ks,
                 cryptoAlg = ''aes-cbc-128'', integrAlg = ''sha-256-128'' \<rparr>;
        tasksDeviceA = fst (prepareTunnelAddJob ks n ifA ifB ver);
        tasksDeviceB = snd (prepareTunnelAddJob ks n ifA ifB ver)
    in map (\<lambda>t. ipsec (params t)) tasksDeviceA
         = [Some \<lparr> localSa = saAB, remoteSa = saBA \<rparr>]
     \<and> map (\<lambda>t. ipsec (params t)) tasksDeviceB
         = [Some \<lparr> localSa = saAB\<lparr>spi := sa2 p\<rparr>, remoteSa = saBA\<lparr>spi := sa1 p\<rparr> \<rparr>]
     \<and> map (\<lambda>t. map_option (\<lambda>i. spi (localSa i)) (ipsec (params t))) tasksDeviceA
         = [Some (sa1 p)]
     \<and> map (\<lambda>t. map_option (\<lambda>i. spi (remoteSa i)) (ipsec (params t))) tasksDeviceA
         = [Some (sa2 p)]
     \<and> map (\<lambda>t. map_option (\<lambda>i. spi (localSa i)) (ipsec (params t))) tasksDeviceB
         = [Some (sa2 p)]
     \<and> map (\<lambda>t. map_option (\<lambda>i. spi (remoteSa i)) (ipsec (params t))) tasksDeviceB
         = [Some (sa1 p)])"
  by (simp add: prepareTunnelAddJob_def Let_def)

section \<open>Reuse of a freed tunnel number\<close>

text \<open>
  Claim C3. When the store serves the two queries, no active tunnel joins the two devices
  (so a number is allocated) and the organization has an inactive tunnel record, the
  allocation claims the first such record \<open>r\<close>: it alone is changed, to
  \<open>isActive = True\<close>, and \<^verbatim>\<open>addTunnel\<close> runs with the number \<open>num r\<close>. The
  counter of the organization keeps its value and no call to the counter collection is
  issued.
\<close>

theorem allocation_reuses_inactive:
  assumes "findErr e = None" and "claimErr e = None"
    and "\<forall>t\<in>set (tunnels s). \<not> activeBetweenDevices orgId (devId devA) (devId devB) t"
    and "\<exists>t\<in>set (tunnels s). isActive t = False \<and> org t = orgId"
  shows "\<exists>pre r post.
      tunnels s = pre @ r # post
    \<and> (\<forall>x\<in>set pre. \<not> (isActive x = False \<and> org x = orgId))
    \<and> isActive r = False \<and> org r = orgId
    \<and> getTunnelPromise e u orgId devA devB iA iB s
        = resolveJobs (Rejected ''Tunnel ID not found'')
            (addTunnel e u orgId (num r) devA devB iA iB
               (s\<lparr>tunnels := pre @ r\<lparr>isActive := True\<rparr> # post,
                  calls := calls s @ [TunnelsFind, TunnelsFindOneAndUpdate]\<rparr>))
    \<and> tunnelids (snd (getTunnelPromise e u orgId devA devB iA iB s)) = tunnelids s
    \<and> count_list (calls (snd (getTunnelPromise e u orgId devA devB iA iB s)))
          TunnelIDsFindOneAndUpdate
        = count_list (calls s) TunnelIDsFindOneAndUpdate"
proof -
  obtain pre r post where
    split: "tunnels s = pre @ r # post"
    and pre: "\<forall>x\<in>set pre. \<not> (isActive x = False \<and> org x = orgId)"
    and r: "isActive r = False" "org r = orgId"
    using first_match_split [OF assms(4)] by blast
  let ?s1 = "s\<lparr>tunnels := pre @ r\<lparr>isActive := True\<rparr> # post,
                calls := calls s @ [TunnelsFind, TunnelsFindOneAndUpdate]\<rparr>"
  have run: "getTunnelPromise e u orgId devA devB iA iB s
      = resolveJobs (Rejected ''Tunnel ID not found'')
          (addTunnel e u orgId (num r) devA devB iA iB ?s1)"
    using claim_inactive [of e "logCall TunnelsFind s" pre r post orgId u devA devB iA iB]
      assms(2) split pre r
    by (simp add: getTunnelPromise_allocates [OF assms(1) assms(3)] logCall_def)
  have snd_resolve: "\<And>p x. snd (resolveJobs p x) = snd x"
    by (simp add: resolveJobs_def split: prod.splits sum.splits)
  have frame: "tunnelids (snd (getTunnelPromise e u orgId devA devB iA iB s)) = tunnelids s
     \<and> count_list (calls (snd (getTunnelPromise e u orgId devA devB iA iB s)))
          TunnelIDsFindOneAndUpdate
        = count_list (calls s) TunnelIDsFindOneAndUpdate"
    using addTunnel_counter [of e u orgId "num r" devA devB iA iB ?s1]
    by (simp add: run snd_resolve)
  from split pre r run frame show ?thesis by blast
qed

text \<open>On the store with the freed numbers 7 and 3 and the counter at 9: the first
  inactive record is claimed, both jobs carry the number 7, the record with number 3 stays
  inactive and the counter stays at 9.\<close>

theorem allocation_reuses_inactive_witness:
  "findErr exEnv = None \<and> claimErr exEnv = None
   \<and> filter (activeBetweenDevices ''org1'' (devId exDevA) (devId exDevB)) (tunnels exStoreFreed) = []
   \<and> (\<exists>t\<in>set (tunnels exStoreFreed). isActive t = False \<and> org t = ''org1'')
   \<and> (\<exists>pre r post.
      tunnels exStoreFreed = pre @ r # post
    \<and> (\<forall>x\<in>set pre. \<not> (isActive x = False \<and> org x = ''org1''))
    \<and> isActive r = False \<and> org r = ''org1''
    \<and> getTunnelPromise exEnv ''admin'' ''org1'' exDevA exDevB exIfcA exIfcB exStoreFreed
        = resolveJobs (Rejected ''Tunnel ID not found'')
            (addTunnel exEnv ''admin'' ''org1'' (num r) exDevA exDevB exIfcA exIfcB
               (exStoreFreed\<lparr>tunnels := pre @ r\<lparr>isActive := True\<rparr> # post,
                  calls := calls exStoreFreed @ [TunnelsFind, TunnelsFindOneAndUpdate]\<rparr>))
    \<and> tunnelids (snd (getTunnelPromise exEnv ''admin'' ''org1'' exDevA exDevB exIfcA exIfcB
                        exStoreFreed)) = tunnelids exStoreFreed
    \<and> count_list (calls (snd (getTunnelPromise exEnv ''admin'' ''org1'' exDevA exDevB exIfcA
                                 exIfcB exStoreFreed))) TunnelIDsFindOneAndUpdate
        = count_list (calls exStoreFreed) TunnelIDsFindOneAndUpdate)
   \<and> (case getTunnelPromise exEnv ''admin'' ''org1'' exDevA exDevB exIfcA exIfcB exStoreFreed of
        (p, s') \<Rightarrow>
          (tunnelNumbers p,
           map (\<lambda>t. (num t, isActive t, deviceA t, deviceB t)) (tunnels s'),
           tunnelids s' ''org1'', calls s'))
     = ([7, 7],
        [(5, True, ''dc'', ''dx''), (7, True, ''da'', ''db''), (3, False, ''da'', ''dc'')],
        Some 9,
        [TunnelsFind, TunnelsFindOneAndUpdate, TunnelsFindOneAndUpdate, QueueAddJob, QueueAddJob])"
proof -
  have h1: "findErr exEnv = None" and h2: "claimErr exEnv = None"
    by (simp_all add: exEnv_def)
  have h3: "\<forall>t\<in>set (tunnels exStoreFreed).
              \<not> activeBetweenDevices ''org1'' (devId exDevA) (devId exDevB) t"
    by (simp add: exDefs activeBetweenDevices_def)
  have h4: "\<exists>t\<in>set (tunnels exStoreFreed). isActive t = False \<and> org t = ''org1''"
    by (simp add: exDefs)
  have f3: "filter (activeBetweenDevices ''org1'' (devId exDevA) (devId exDevB))
              (tunnels exStoreFreed) = []"
    using h3 by (simp add: filter_empty_conv)
  have run: "(case getTunnelPromise exEnv ''admin'' ''org1'' exDevA exDevB exIfcA exIfcB
                     exStoreFreed of
        (p, s') \<Rightarrow>
          (tunnelNumbers p,
           map (\<lambda>t. (num t, isActive t, deviceA t, deviceB t)) (tunnels s'),
           tunnelids s' ''org1'', calls s'))
     = ([7, 7],
        [(5, True, ''dc'', ''dx''), (7, True, ''da'', ''db''), (3, False, ''da'', ''dc'')],
        Some 9,
        [TunnelsFind, TunnelsFindOneAndUpdate, TunnelsFindOneAndUpdate, QueueAddJob, QueueAddJob])"
    by (simp add: exDefs runDefs tunnelNumbers_def)
  from h1 h2 f3 h4
    allocation_reuses_inactive [OF h1 h2 h3 h4, of "''admin''" exIfcA exIfcB] run
  show ?thesis by (intro conjI)
qed

section \<open>Minting a new tunnel number\<close>

text \<open>
  Claim C2, as stated, fails: the counter update is issued with \<^verbatim>\<open>new: true\<close>, so
  the number used for the tunnel is the value of the counter after the increment. With
  the counter at 5 the two jobs carry the number 6, not 5; with no counter yet they carry
  1, not 0.
\<close>

theorem allocation_pre_increment_counterexample:
  "tunnelNumbers (fst (getTunnelPromise exEnv ''admin'' ''org1'' exDevA exDevB exIfcA exIfcB
                          exStoreFive)) = [6, 6]
   \<and> preIncrement (tunnelids exStoreFive) ''org1'' = 5
   \<and> tunnelNumbers (fst (getTunnelPromise exEnv ''admin'' ''org1'' exDevA exDevB exIfcA exIfcB
                          exStoreFive))
       \<noteq> [preIncrement (tunnelids exStoreFive) ''org1'',
           preIncrement (tunnelids exStoreFive) ''org1'']
   \<and> tunnelNumbers (fst (getTunnelPromise exEnv ''admin'' ''org1'' exDevA exDevB exIfcA exIfcB
                          exStoreEmpty)) = [1, 1]
   \<and> preIncrement (tunnelids exStoreEmpty) ''org1'' = 0"
  by (simp add: exDefs runDefs tunnelNumbers_def preIncrement_def)

text \<open>
  Claim C2, amended. When the store serves the queries, no active tunnel joins the two
  devices and the organization has no inactive tunnel record: if the organization has no
  counter or its counter is below 15000, the counter is incremented (a missing counter
  becomes 1) and \<^verbatim>\<open>addTunnel\<close> runs with the value after the increment, a number
  from 1 to 15000; if the counter has reached 15000, the promise is rejected with
  "Tunnel ID not found" after two refused updates, and tunnels, counters and queue are
  as before.
\<close>

theorem allocation_mints_incremented:
  assumes "findErr e = None" and "claimErr e = None" and "incErr e = None"
    and "\<forall>t\<in>set (tunnels s). \<not> activeBetweenDevices orgId (devId devA) (devId devB) t"
    and "\<forall>t\<in>set (tunnels s). \<not> (isActive t = False \<and> org t = orgId)"
  shows "((case tunnelids s orgId of None \<Rightarrow> True | Some c \<Rightarrow> c < 15000) \<longrightarrow>
           (let n = (case tunnelids s orgId of None \<Rightarrow> 1 | Some c \<Rightarrow> c + 1)
            in 1 \<le> n \<and> n \<le> 15000
             \<and> getTunnelPromise e u orgId devA devB iA iB s
                 = resolveJobs (Rejected ''Tunnel ID not found'')
                     (addTunnel e u orgId n devA devB iA iB
                        (s\<lparr>tunnelids := (tunnelids s)(orgId \<mapsto> n),
                           calls := calls s @ [TunnelsFind, TunnelsFindOneAndUpdate,
                                               TunnelIDsFindOneAndUpdate]\<rparr>))))
       \<and> ((case tunnelids s orgId of None \<Rightarrow> False | Some c \<Rightarrow> 15000 \<le> c) \<longrightarrow>
            getTunnelPromise e u orgId devA devB iA iB s
              = (Rejected ''Tunnel ID not found'',
                 s\<lparr>calls := calls s @ [TunnelsFind, TunnelsFindOneAndUpdate,
                                      TunnelIDsFindOneAndUpdate, TunnelIDsFindOneAndUpdate]\<rparr>))"
proof -
  have run: "getTunnelPromise e u orgId devA devB iA iB s
      = tunnelFoundThen e u orgId devA devB iA iB [] (logCall TunnelsFind s)"
    by (rule getTunnelPromise_allocates [OF assms(1) assms(4)])
  have inact: "\<forall>x\<in>set (tunnels (logCall TunnelsFind s)). \<not> (isActive x = False \<and> org x = orgId)"
    using assms(5) by (simp add: logCall_def)
  note step = no_inactive [OF assms(2) inact, of u devA devB iA iB]
  show ?thesis
    unfolding run step
    using assms(3)
    by (cases "incErr2 e")
       (simp_all add: tunnelIDsFindOneAndUpdate_def logCall_def Let_def split: option.splits)
qed

text \<open>With the counter at 5 \<^verbatim>\<open>addTunnel\<close> runs with the number 6; with the counter
  at 15000 the promise is rejected and only the four calls are recorded.\<close>

theorem allocation_mints_incremented_witness:
  "findErr exEnv = None \<and> claimErr exEnv = None \<and> incErr exEnv = None
   \<and> filter (activeBetweenDevices ''org1'' (devId exDevA) (devId exDevB)) (tunnels exStoreFive) = []
   \<and> filter (\<lambda>t. isActive t = False \<and> org t = ''org1'') (tunnels exStoreFive) = []
   \<and> (case tunnelids exStoreFive ''org1'' of None \<Rightarrow> True | Some c \<Rightarrow> c < 15000)
   \<and> getTunnelPromise exEnv ''admin'' ''org1'' exDevA exDevB exIfcA exIfcB exStoreFive
       = resolveJobs (Rejected ''Tunnel ID not found'')
           (addTunnel exEnv ''admin'' ''org1'' 6 exDevA exDevB exIfcA exIfcB
              (exStoreFive\<lparr>tunnelids := (tunnelids exStoreFive)(''org1'' \<mapsto> 6),
                 calls := [TunnelsFind, TunnelsFindOneAndUpdate, TunnelIDsFindOneAndUpdate]\<rparr>))
   \<and> filter (activeBetweenDevices ''org1'' (devId exDevA) (devId exDevB)) (tunnels exStoreFull) = []
   \<and> filter (\<lambda>t. isActive t = False \<and> org t = ''org1'') (tunnels exStoreFull) = []
   \<and> (case tunnelids exStoreFull ''org1'' of None \<Rightarrow> False | Some c \<Rightarrow> 15000 \<le> c)
   \<and> getTunnelPromise exEnv ''admin'' ''org1'' exDevA exDevB exIfcA exIfcB exStoreFull
       = (Rejected ''Tunnel ID not found'',
          exStoreFull\<lparr>calls := [TunnelsFind, TunnelsFindOneAndUpdate,
                                 TunnelIDsFindOneAndUpdate, TunnelIDsFindOneAndUpdate]\<rparr>)"
proof -
  have h1: "findErr exEnv = None" and h2: "claimErr exEnv = None" and h3: "incErr exEnv = None"
    by (simp_all add: exEnv_def)
  have h4: "\<forall>t\<in>set (tunnels exStoreFive).
              \<not> activeBetweenDevices ''org1'' (devId exDevA) (devId exDevB) t"
    by (simp add: exDefs activeBetweenDevices_def)
  have h5: "\<forall>t\<in>set (tunnels exStoreFive). \<not> (isActive t = False \<and> org t = ''org1'')"
    by (simp add: exDefs)
  have h6: "tunnelids exStoreFive ''org1'' = Some 5" and c6: "calls exStoreFive = []"
    by (simp_all add: exDefs)
  have g4: "\<forall>t\<in>set (tunnels exStoreFull).
              \<not> activeBetweenDevices ''org1'' (devId exDevA) (devId exDevB) t"
    by (simp add: exDefs)
  have g5: "\<forall>t\<in>set (tunnels exStoreFull). \<not> (isActive t = False \<and> org t = ''org1'')"
    by (simp add: exDefs)
  have g6: "tunnelids exStoreFull ''org1'' = Some 15000" and d6: "calls exStoreFull = []"
    by (simp_all add: exDefs)
  have f4: "filter (activeBetweenDevices ''org1'' (devId exDevA) (devId exDevB))
              (tunnels exStoreFive) = []"
    and f5: "filter (\<lambda>t. isActive t = False \<and> org t = ''org1'') (tunnels exStoreFive) = []"
    and e4: "filter (activeBetweenDevices ''org1'' (devId exDevA) (devId exDevB))
              (tunnels exStoreFull) = []"
    and e5: "filter (\<lambda>t. isActive t = False \<and> org t = ''org1'') (tunnels exStoreFull) = []"
    using h4 h5 g4 g5 by (simp_all add: filter_empty_conv)
  show ?thesis
    using allocation_mints_incremented [OF h1 h2 h3 h4 h5, of "''admin''" exIfcA exIfcB]
      allocation_mints_incremented [OF h1 h2 h3 g4 g5, of "''admin''" exIfcA exIfcB]
      h1 h2 h3 f4 f5 e4 e5
    by (simp add: h6 c6 g6 d6)
qed

section \<open>A conflict on the counter update\<close>

text \<open>
  Claim C9. The store serves the two queries on the tunnels, no active tunnel joins the
  two devices, the organization has no inactive record, and the first counter update is
  rejected with \<open>err\<close>. If \<open>err\<close> is not the duplicate key error (code 11000), the
  promise is rejected with "Tunnel ID not found" after that single update. If it is, the
  update is issued a second time and no third time: when the second is rejected too (by
  any error, or by the store because the counter is out of range), the promise is
  rejected with "Tunnel ID not found"; when it is served, \<^verbatim>\<open>addTunnel\<close> runs with the
  incremented counter. In the rejected cases tunnels, counters and queue are as before.
\<close>

theorem counter_conflict_retried_once:
  assumes "findErr e = None" and "claimErr e = None"
    and "\<forall>t\<in>set (tunnels s). \<not> activeBetweenDevices orgId (devId devA) (devId devB) t"
    and "\<forall>t\<in>set (tunnels s). \<not> (isActive t = False \<and> org t = orgId)"
    and "incErr e = Some err"
  shows "(errCode err \<noteq> Some 11000 \<longrightarrow>
            getTunnelPromise e u orgId devA devB iA iB s
              = (Rejected ''Tunnel ID not found'',
                 s\<lparr>calls := calls s @ [TunnelsFind, TunnelsFindOneAndUpdate,
                                      TunnelIDsFindOneAndUpdate]\<rparr>))
       \<and> (errCode err = Some 11000 \<and> incErr2 e \<noteq> None \<longrightarrow>
            getTunnelPromise e u orgId devA devB iA iB s
              = (Rejected ''Tunnel ID not found'',
                 s\<lparr>calls := calls s @ [TunnelsFind, TunnelsFindOneAndUpdate,
                                      TunnelIDsFindOneAndUpdate, TunnelIDsFindOneAndUpdate]\<rparr>))
       \<and> (errCode err = Some 11000 \<and> incErr2 e = None
            \<and> (case tunnelids s orgId of None \<Rightarrow> False | Some c \<Rightarrow> 15000 \<le> c) \<longrightarrow>
            getTunnelPromise e u orgId devA devB iA iB s
              = (Rejected ''Tunnel ID not found'',
                 s\<lparr>calls := calls s @ [TunnelsFind, TunnelsFindOneAndUpdate,
                                      TunnelIDsFindOneAndUpdate, TunnelIDsFindOneAndUpdate]\<rparr>))
       \<and> (errCode err = Some 11000 \<and> incErr2 e = None
            \<and> (case tunnelids s orgId of None \<Rightarrow> True | Some c \<Rightarrow> c < 15000) \<longrightarrow>
            (let n = (case tunnelids s orgId of None \<Rightarrow> 1 | Some c \<Rightarrow> c + 1)
             in getTunnelPromise e u orgId devA devB iA iB s
                  = resolveJobs Pending
                      (addTunnel e u orgId n devA devB iA iB
                         (s\<lparr>tunnelids := (tunnelids s)(orgId \<mapsto> n),
                            calls := calls s @ [TunnelsFind, TunnelsFindOneAndUpdate,
                                                TunnelIDsFindOneAndUpdate,
                                                TunnelIDsFindOneAndUpdate]\<rparr>))))"
proof -
  have run: "getTunnelPromise e u orgId devA devB iA iB s
      = tunnelFoundThen e u orgId devA devB iA iB [] (logCall TunnelsFind s)"
    by (rule getTunnelPromise_allocates [OF assms(1) assms(3)])
  have inact: "\<forall>x\<in>set (tunnels (logCall TunnelsFind s)). \<not> (isActive x = False \<and> org x = orgId)"
    using assms(4) by (simp add: logCall_def)
  note step = no_inactive [OF assms(2) inact, of u devA devB iA iB]
  show ?thesis
    unfolding run step
    using assms(5)
    by (cases "incErr2 e")
       (simp_all add: tunnelIDsFindOneAndUpdate_def logCall_def Let_def split: option.splits)
qed


text \<open>Four runs on stores without tunnels: a connection error on the first update; the
  duplicate key error twice; the duplicate key error and then a counter at 15000; the
  duplicate key error and then a served update, after which both jobs carry the number 1.\<close>

theorem counter_conflict_retried_once_witness:
  "findErr exEnv = None \<and> claimErr exEnv = None
   \<and> filter (activeBetweenDevices ''org1'' (devId exDevA) (devId exDevB)) (tunnels exStoreEmpty) = []
   \<and> filter (\<lambda>t. isActive t = False \<and> org t = ''org1'') (tunnels exStoreEmpty) = []
   \<and> errCode (Error ''connection closed'') \<noteq> Some 11000
   \<and> getTunnelPromise (exEnv\<lparr>incErr := Some (Error ''connection closed'')\<rparr>) ''admin'' ''org1''
         exDevA exDevB exIfcA exIfcB exStoreEmpty
       = (Rejected ''Tunnel ID not found'',
          exStoreEmpty\<lparr>calls := [TunnelsFind, TunnelsFindOneAndUpdate,
                                  TunnelIDsFindOneAndUpdate]\<rparr>)
   \<and> errCode (MongoError 11000) = Some 11000
   \<and> getTunnelPromise (exEnv\<lparr>incErr := Some (MongoError 11000),
                              incErr2 := Some (MongoError 11000)\<rparr>) ''admin'' ''org1''
         exDevA exDevB exIfcA exIfcB exStoreEmpty
       = (Rejected ''Tunnel ID not found'',
          exStoreEmpty\<lparr>calls := [TunnelsFind, TunnelsFindOneAndUpdate,
                                  TunnelIDsFindOneAndUpdate, TunnelIDsFindOneAndUpdate]\<rparr>)
   \<and> filter (activeBetweenDevices ''org1'' (devId exDevA) (devId exDevB)) (tunnels exStoreFull) = []
   \<and> filter (\<lambda>t. isActive t = False \<and> org t = ''org1'') (tunnels exStoreFull) = []
   \<and> (case tunnelids exStoreFull ''org1'' of None \<Rightarrow> False | Some c \<Rightarrow> 15000 \<le> c)
   \<and> getTunnelPromise (exEnv\<lparr>incErr := Some (MongoError 11000)\<rparr>) ''admin'' ''org1''
         exDevA exDevB exIfcA exIfcB exStoreFull
       = (Rejected ''Tunnel ID not found'',
          exStoreFull\<lparr>calls := [TunnelsFind, TunnelsFindOneAndUpdate,
                                 TunnelIDsFindOneAndUpdate, TunnelIDsFindOneAndUpdate]\<rparr>)
   \<and> (case tunnelids exStoreEmpty ''org1'' of None \<Rightarrow> True | Some c \<Rightarrow> c < 15000)
   \<and> getTunnelPromise (exEnv\<lparr>incErr := Some (MongoError 11000)\<rparr>) ''admin'' ''org1''
         exDevA exDevB exIfcA exIfcB exStoreEmpty
       = resolveJobs Pending
           (addTunnel (exEnv\<lparr>incErr := Some (MongoError 11000)\<rparr>) ''admin'' ''org1'' 1
              exDevA exDevB exIfcA exIfcB
              (exStoreEmpty\<lparr>tunnelids := (tunnelids exStoreEmpty)(''org1'' \<mapsto> 1),
                 calls := [TunnelsFind, TunnelsFindOneAndUpdate,
                           TunnelIDsFindOneAndUpdate, TunnelIDsFindOneAndUpdate]\<rparr>))
   \<and> tunnelNumbers (fst (getTunnelPromise (exEnv\<lparr>incErr := Some (MongoError 11000)\<rparr>)
         ''admin'' ''org1'' exDevA exDevB exIfcA exIfcB exStoreEmpty)) = [1, 1]"
proof -
  let ?e1 = "exEnv\<lparr>incErr := Some (Error ''connection closed'')\<rparr>"
  let ?e2 = "exEnv\<lparr>incErr := Some (MongoError 11000), incErr2 := Some (MongoError 11000)\<rparr>"
  let ?e3 = "exEnv\<lparr>incErr := Some (MongoError 11000)\<rparr>"
  have f: "findErr exEnv = None" "claimErr exEnv = None"
    by (simp_all add: exEnv_def)
  have f1: "findErr ?e1 = None" "claimErr ?e1 = None"
    and f2: "findErr ?e2 = None" "claimErr ?e2 = None"
    and f3: "findErr ?e3 = None" "claimErr ?e3 = None"
    by (simp_all add: exEnv_def)
  have i1: "incErr ?e1 = Some (Error ''connection closed'')"
    and i2: "incErr ?e2 = Some (MongoError 11000)"
    and i3: "incErr ?e3 = Some (MongoError 11000)"
    by simp_all
  have r2: "incErr2 ?e2 \<noteq> None" and r3: "incErr2 ?e3 = None"
    by (simp_all add: exEnv_def)
  have h4: "\<forall>t\<in>set (tunnels exStoreEmpty).
              \<not> activeBetweenDevices ''org1'' (devId exDevA) (devId exDevB) t"
    and h5: "\<forall>t\<in>set (tunnels exStoreEmpty). \<not> (isActive t = False \<and> org t = ''org1'')"
    and h6: "tunnelids exStoreEmpty ''org1'' = None" and c6: "calls exStoreEmpty = []"
    by (simp_all add: exDefs)
  have g4: "\<forall>t\<in>set (tunnels exStoreFull).
              \<not> activeBetweenDevices ''org1'' (devId exDevA) (devId exDevB) t"
    and g5: "\<forall>t\<in>set (tunnels exStoreFull). \<not> (isActive t = False \<and> org t = ''org1'')"
    and g6: "tunnelids exStoreFull ''org1'' = Some 15000" and d6: "calls exStoreFull = []"
    by (simp_all add: exDefs)
  have n: "tunnelNumbers (fst (getTunnelPromise ?e3 ''admin'' ''org1'' exDevA exDevB exIfcA exIfcB
                                 exStoreEmpty)) = [1, 1]"
    by (simp add: exDefs runDefs tunnelNumbers_def)
  have f4: "filter (activeBetweenDevices ''org1'' (devId exDevA) (devId exDevB))
              (tunnels exStoreEmpty) = []"
    and f5: "filter (\<lambda>t. isActive t = False \<and> org t = ''org1'') (tunnels exStoreEmpty) = []"
    and e4: "filter (activeBetweenDevices ''org1'' (devId exDevA) (devId exDevB))
              (tunnels exStoreFull) = []"
    and e5: "filter (\<lambda>t. isActive t = False \<and> org t = ''org1'') (tunnels exStoreFull) = []"
    using h4 h5 g4 g5 by (simp_all add: filter_empty_conv)
  show ?thesis
    using counter_conflict_retried_once [OF f1 h4 h5 i1, of "''admin''" exIfcA exIfcB]
      counter_conflict_retried_once [OF f2 h4 h5 i2, of "''admin''" exIfcA exIfcB]
      counter_conflict_retried_once [OF f3 g4 g5 i3, of "''admin''" exIfcA exIfcB]
      counter_conflict_retried_once [OF f3 h4 h5 i3, of "''admin''" exIfcA exIfcB]
      f f4 f5 e4 e5 r2 r3 n
    by (simp add: h6 c6 g6 d6)
qed


section \<open>One promise on its own runs as \<^verbatim>\<open>getTunnelPromise\<close>\<close>

lemma rounds_single:
  "rounds (Suc n) envs u orgId [((devA, devB, iA, iB), st)] s
     = (case stepPromise (envs 0) u orgId devA devB iA iB st s of
          (st', s1) \<Rightarrow> rounds n envs u orgId [((devA, devB, iA, iB), st')] s1)"
  by (simp split: prod.splits)

lemma rounds_settled:
  "rounds n envs u orgId [((devA, devB, iA, iB), Settled p)] s
     = ([((devA, devB, iA, iB), Settled p)], s)"
  by (induction n) simp_all

lemma rounds_jobB:
  "rounds (Suc n) envs u orgId [((devA, devB, iA, iB), JobBDone onThrow jobA r)] s
     = ([((devA, devB, iA, iB),
          Settled (case r of Inl err \<Rightarrow> onThrow
                   | Inr jobB \<Rightarrow> Resolved (TunnelJobs [jobA, jobB])))], s)"
  by (cases r) (simp_all add: rounds_settled del: rounds.simps add: rounds_single)

lemma rounds_jobA:
  "rounds (Suc (Suc n)) envs u orgId [((devA, devB, iA, iB), JobADone onThrow tasksB r)] s
     = (case r of
          Inl err \<Rightarrow> ([((devA, devB, iA, iB), Settled onThrow)], s)
        | Inr jobA \<Rightarrow>
            (case addJob (jobBErr (envs 0))
                    (tunnelJob True (tunnelTitle ''Create'' devA iA devB iB) tasksB u orgId
                       (machineId devB) (devId devA) (devId devB) ''deviceBconf'') s of
               (r2, s1) \<Rightarrow>
                 ([((devA, devB, iA, iB),
                    Settled (case r2 of Inl err \<Rightarrow> onThrow
                             | Inr jobB \<Rightarrow> Resolved (TunnelJobs [jobA, jobB])))], s1)))"
proof (cases r)
  case (Inl err)
  then show ?thesis
    by (simp add: rounds_single rounds_settled del: rounds.simps)
next
  case (Inr jobA)
  obtain r2 s1 where
    jb: "addJob (jobBErr (envs 0))
           (tunnelJob True (tunnelTitle ''Create'' devA iA devB iB) tasksB u orgId
              (machineId devB) (devId devA) (devId devB) ''deviceBconf'') s = (r2, s1)"
    by (cases "addJob (jobBErr (envs 0))
           (tunnelJob True (tunnelTitle ''Create'' devA iA devB iB) tasksB u orgId
              (machineId devB) (devId devA) (devId devB) ''deviceBconf'') s")
  have "rounds (Suc (Suc n)) envs u orgId [((devA, devB, iA, iB), JobADone onThrow tasksB r)] s
          = rounds (Suc n) envs u orgId [((devA, devB, iA, iB), JobBDone onThrow jobA r2)] s1"
    by (subst rounds_single) (simp add: Inr jb del: rounds.simps)
  then show ?thesis
    by (simp add: rounds_jobB Inr jb del: rounds.simps)
qed

lemma rounds_addTunnel:
  "(case startAddTunnel (envs 0) orgId devA devB iA iB onThrow n s of
      (st, s1) \<Rightarrow> rounds (Suc (Suc (Suc k))) envs u orgId [((devA, devB, iA, iB), st)] s1)
     = (case resolveJobs onThrow (addTunnel (envs 0) u orgId n devA devB iA iB s) of
          (p, s') \<Rightarrow> ([((devA, devB, iA, iB), Settled p)], s'))"
proof -
  obtain r s1 where up: "tunnelsUpsert (upsertErr (envs 0)) (newOid (envs 0)) orgId n
      (devId devA) (ifcId iA) (devId devB) (ifcId iB) s = (r, s1)"
    by (cases "tunnelsUpsert (upsertErr (envs 0)) (newOid (envs 0)) orgId n
      (devId devA) (ifcId iA) (devId devB) (ifcId iB) s")
  have start: "(case startAddTunnel (envs 0) orgId devA devB iA iB onThrow n s of
      (st, s1) \<Rightarrow> rounds (Suc (Suc (Suc k))) envs u orgId [((devA, devB, iA, iB), st)] s1)
     = rounds (Suc (Suc (Suc k))) envs u orgId [((devA, devB, iA, iB), UpsertDone onThrow n r)] s1"
    by (simp add: startAddTunnel_def up del: rounds.simps)
  show ?thesis
  proof (cases r)
    case (Inl err)
    have "rounds (Suc (Suc (Suc k))) envs u orgId [((devA, devB, iA, iB), UpsertDone onThrow n r)] s1
            = ([((devA, devB, iA, iB), Settled onThrow)], s1)"
      by (subst rounds_single) (simp add: Inl rounds_settled del: rounds.simps)
    then show ?thesis
      unfolding start by (simp add: addTunnel_def resolveJobs_def up Inl)
  next
    case (Inr x)
    obtain tasksA tasksB where
      prep: "prepareTunnelAddJob (randomKeys (envs 0)) n iA iB (agentVersion devB) = (tasksA, tasksB)"
      by (cases "prepareTunnelAddJob (randomKeys (envs 0)) n iA iB (agentVersion devB)")
    obtain ra sa where
      ja: "addJob (jobAErr (envs 0))
             (tunnelJob True (tunnelTitle ''Create'' devA iA devB iB) tasksA u orgId
                (machineId devA) (devId devA) (devId devB) ''deviceAconf'') s1 = (ra, sa)"
      by (cases "addJob (jobAErr (envs 0))
             (tunnelJob True (tunnelTitle ''Create'' devA iA devB iB) tasksA u orgId
                (machineId devA) (devId devA) (devId devB) ''deviceAconf'') s1")
    obtain rb sb where
      jb: "addJob (jobBErr (envs 0))
             (tunnelJob True (tunnelTitle ''Create'' devA iA devB iB) tasksB u orgId
                (machineId devB) (devId devA) (devId devB) ''deviceBconf'') sa = (rb, sb)"
      by (cases "addJob (jobBErr (envs 0))
             (tunnelJob True (tunnelTitle ''Create'' devA iA devB iB) tasksB u orgId
                (machineId devB) (devId devA) (devId devB) ''deviceBconf'') sa")
    have step: "rounds (Suc (Suc (Suc k))) envs u orgId
                  [((devA, devB, iA, iB), UpsertDone onThrow n r)] s1
            = rounds (Suc (Suc k)) envs u orgId [((devA, devB, iA, iB), JobADone onThrow tasksB ra)] sa"
      by (subst rounds_single) (simp add: Inr prep ja del: rounds.simps)
    have left: "rounds (Suc (Suc k)) envs u orgId [((devA, devB, iA, iB), JobADone onThrow tasksB ra)] sa
            = (case ra of
                 Inl err \<Rightarrow> ([((devA, devB, iA, iB), Settled onThrow)], sa)
               | Inr jobA \<Rightarrow>
                   ([((devA, devB, iA, iB),
                      Settled (case rb of Inl err \<Rightarrow> onThrow
                               | Inr jobB \<Rightarrow> Resolved (TunnelJobs [jobA, jobB])))], sb))"
      by (cases ra) (simp_all add: rounds_jobA jb del: rounds.simps)
    have right: "resolveJobs onThrow (addTunnel (envs 0) u orgId n devA devB iA iB s)
            = (case ra of
                 Inl err \<Rightarrow> (onThrow, sa)
               | Inr jobA \<Rightarrow>
                   (case rb of Inl err \<Rightarrow> (onThrow, sb)
                    | Inr jobB \<Rightarrow> (Resolved (TunnelJobs [jobA, jobB]), sb)))"
      by (simp add: addTunnel_def queueTunnel_def resolveJobs_def up Inr prep ja jb Let_def
            split: sum.splits)
    show ?thesis
      unfolding start step left right
      by (simp split: sum.splits)
  qed
qed

lemma rounds_inc2:
  "rounds (Suc (Suc (Suc (Suc k)))) envs u orgId [((devA, devB, iA, iB), Inc2Done r)] s
     = (case r of
          Inl err \<Rightarrow> ([((devA, devB, iA, iB), Settled (Rejected ''Tunnel ID not found''))], s)
        | Inr idResp \<Rightarrow>
            (case resolveJobs Pending (addTunnel (envs 0) u orgId idResp devA devB iA iB s) of
               (p, s') \<Rightarrow> ([((devA, devB, iA, iB), Settled p)], s')))"
proof (cases r)
  case (Inl err)
  then show ?thesis
    by (subst rounds_single) (simp add: rounds_settled del: rounds.simps)
next
  case (Inr idResp)
  then show ?thesis
    using rounds_addTunnel [where envs = envs and orgId = orgId and devA = devA and devB = devB
        and iA = iA and iB = iB and onThrow = Pending and n = idResp and s = s and k = k
        and u = u]
    by (subst rounds_single) (simp del: rounds.simps)
qed

lemma rounds_inc:
  "rounds (Suc (Suc (Suc (Suc (Suc k))))) envs u orgId [((devA, devB, iA, iB), IncDone r)] s
     = (case r of
          Inr idResp \<Rightarrow>
            (case resolveJobs (Rejected ''Tunnel ID not found'')
                    (addTunnel (envs 0) u orgId idResp devA devB iA iB s) of
               (p, s') \<Rightarrow> ([((devA, devB, iA, iB), Settled p)], s'))
        | Inl err \<Rightarrow>
            if errCode err = Some 11000 then
              (case tunnelIDsFindOneAndUpdate (incErr2 (envs 0)) orgId s of
                 (Inr idResp, s3) \<Rightarrow>
                   (case resolveJobs Pending (addTunnel (envs 0) u orgId idResp devA devB iA iB s3) of
                      (p, s') \<Rightarrow> ([((devA, devB, iA, iB), Settled p)], s'))
               | (Inl err2, s3) \<Rightarrow>
                   ([((devA, devB, iA, iB), Settled (Rejected ''Tunnel ID not found''))], s3))
            else ([((devA, devB, iA, iB), Settled (Rejected ''Tunnel ID not found''))], s))"
proof (cases r)
  case (Inr idResp)
  then show ?thesis
    using rounds_addTunnel [where envs = envs and orgId = orgId and devA = devA and devB = devB
        and iA = iA and iB = iB and onThrow = "Rejected ''Tunnel ID not found''" and n = idResp
        and s = s and k = "Suc k" and u = u]
    by (subst rounds_single) (simp del: rounds.simps)
next
  case (Inl err)
  show ?thesis
  proof (cases "errCode err = Some 11000")
    case False
    with Inl show ?thesis
      by (subst rounds_single) (simp add: rounds_settled del: rounds.simps)
  next
    case True
    obtain r2 s3 where
      inc2: "tunnelIDsFindOneAndUpdate (incErr2 (envs 0)) orgId s = (r2, s3)"
      by (cases "tunnelIDsFindOneAndUpdate (incErr2 (envs 0)) orgId s")
    from Inl True show ?thesis
      by (subst rounds_single) (simp add: inc2 rounds_inc2 del: rounds.simps split: sum.splits)
  qed
qed

lemma rounds_claim:
  "rounds (Suc (Suc (Suc (Suc (Suc (Suc k)))))) envs u orgId
       [((devA, devB, iA, iB), ClaimDone r)] s
     = (case r of
          Inl err \<Rightarrow> ([((devA, devB, iA, iB), Settled (Rejected ''Tunnels search error''))], s)
        | Inr (Some tunnelResp) \<Rightarrow>
            (case resolveJobs (Rejected ''Tunnel ID not found'')
                    (addTunnel (envs 0) u orgId (num tunnelResp) devA devB iA iB s) of
               (p, s') \<Rightarrow> ([((devA, devB, iA, iB), Settled p)], s'))
        | Inr None \<Rightarrow>
            (case tunnelIDsFindOneAndUpdate (incErr (envs 0)) orgId s of
               (r2, s2) \<Rightarrow>
                 rounds (Suc (Suc (Suc (Suc (Suc k))))) envs u orgId
                   [((devA, devB, iA, iB), IncDone r2)] s2))"
proof (cases r)
  case (Inl err)
  then show ?thesis
    by (subst rounds_single) (simp add: rounds_settled del: rounds.simps)
next
  case (Inr found)
  show ?thesis
  proof (cases found)
    case None
    with Inr show ?thesis
      by (subst rounds_single) (simp del: rounds.simps split: prod.splits)
  next
    case (Some tunnelResp)
    with Inr show ?thesis
      using rounds_addTunnel [where envs = envs and orgId = orgId and devA = devA and devB = devB
          and iA = iA and iB = iB and onThrow = "Rejected ''Tunnel ID not found''"
          and n = "num tunnelResp" and s = s and k = "Suc (Suc k)" and u = u]
      by (subst rounds_single) (simp del: rounds.simps)
  qed
qed

lemma rounds_find:
  "rounds 7 envs u orgId [((devA, devB, iA, iB), FindDone found)] s
     = (case findSettled (envs 0) u orgId devA devB iA iB found s of
          (p, s') \<Rightarrow> ([((devA, devB, iA, iB), Settled p)], s'))"
proof -
  have seven: "(7::nat) = Suc (Suc (Suc (Suc (Suc (Suc (Suc 0))))))"
    by simp
  show ?thesis
  proof (cases found)
    case (Inl err)
    then show ?thesis
      unfolding seven
      by (subst rounds_single) (simp add: rounds_settled findSettled_def del: rounds.simps)
  next
    case (Inr tunnelFound)
    show ?thesis
    proof (cases "length tunnelFound = 0")
      case False
      with Inr show ?thesis
        unfolding seven
        by (subst rounds_single)
           (simp add: rounds_settled findSettled_def tunnelFoundThen_def del: rounds.simps)
    next
      case True
      obtain r1 s1 where
        claim: "tunnelsFindOneAndUpdate (claimErr (envs 0))
                  (\<lambda>t. isActive t = False \<and> org t = orgId) (\<lambda>t. t\<lparr>isActive := True\<rparr>) s
                  = (r1, s1)"
        by (cases "tunnelsFindOneAndUpdate (claimErr (envs 0))
                  (\<lambda>t. isActive t = False \<and> org t = orgId) (\<lambda>t. t\<lparr>isActive := True\<rparr>) s")
      obtain r2 s2 where
        inc: "tunnelIDsFindOneAndUpdate (incErr (envs 0)) orgId s1 = (r2, s2)"
        by (cases "tunnelIDsFindOneAndUpdate (incErr (envs 0)) orgId s1")
      have "rounds (Suc (Suc (Suc (Suc (Suc (Suc (Suc 0))))))) envs u orgId
              [((devA, devB, iA, iB), FindDone found)] s
            = rounds (Suc (Suc (Suc (Suc (Suc (Suc 0)))))) envs u orgId
                [((devA, devB, iA, iB), ClaimDone r1)] s1"
        by (subst rounds_single) (use Inr True claim in \<open>simp del: rounds.simps\<close>)
      then show ?thesis
        unfolding seven
        using Inr True claim inc
        by (simp add: rounds_claim rounds_inc findSettled_def tunnelFoundThen_def
              del: rounds.simps split: sum.splits option.splits prod.splits)
    qed
  qed
qed

lemma settlePromises_single:
  "settlePromises envs u orgId [((devA, devB, iA, iB), found)] s
     = (case findSettled (envs 0) u orgId devA devB iA iB found s of (p, s') \<Rightarrow> ([p], s'))"
  by (simp add: settlePromises_def rounds_find del: rounds.simps split: prod.splits)

lemma runPromises_single:
  "runPromises envs u orgId [(devA, devB, iA, iB)] s
     = (case getTunnelPromise (envs 0) u orgId devA devB iA iB s of (p, s') \<Rightarrow> ([p], s'))"
  by (simp add: runPromises_def getTunnelPromise_def settlePromises_single split: prod.splits)

lemma runPromises_none: "runPromises envs u orgId [] s = ([], s)"
  by (simp add: runPromises_def settlePromises_def eval_nat_numeral)

section \<open>Seven rounds settle every promise\<close>

lemma stepPromise_remaining:
  "remaining (fst (stepPromise e u orgId devA devB iA iB st s)) \<le> remaining st - 1"
  by (cases "(e, u, orgId, devA, devB, iA, iB, st, s)" rule: stepPromise.cases)
     (auto simp: startAddTunnel_def split: prod.splits)

lemma stepAll_remaining:
  "\<forall>p\<in>set ps. remaining (snd p) \<le> m \<Longrightarrow>
   \<forall>p\<in>set (fst (stepAll envs u orgId k ps s)). remaining (snd p) \<le> m - 1"
proof (induction ps arbitrary: k s)
  case Nil
  then show ?case by simp
next
  case (Cons x rest)
  obtain devA devB iA iB st where x: "x = ((devA, devB, iA, iB), st)"
    by (cases x) auto
  obtain st' s1 where step: "stepPromise (envs k) u orgId devA devB iA iB st s = (st', s1)"
    by (cases "stepPromise (envs k) u orgId devA devB iA iB st s")
  obtain rest' s2 where more: "stepAll envs u orgId (Suc k) rest s1 = (rest', s2)"
    by (cases "stepAll envs u orgId (Suc k) rest s1")
  have "remaining st' \<le> remaining st - 1"
    using stepPromise_remaining [of "envs k" u orgId devA devB iA iB st s] step by simp
  moreover have "remaining st \<le> m"
    using Cons.prems x by simp
  ultimately have head: "remaining st' \<le> m - 1"
    by simp
  have "\<forall>p\<in>set rest'. remaining (snd p) \<le> m - 1"
    using Cons.IH [of "Suc k" s1] Cons.prems more by simp
  with head show ?case
    by (simp add: x step more)
qed

lemma rounds_remaining:
  "\<forall>p\<in>set ps. remaining (snd p) \<le> m \<Longrightarrow>
   \<forall>p\<in>set (fst (rounds n envs u orgId ps s)). remaining (snd p) \<le> m - n"
proof (induction n arbitrary: ps s m)
  case 0
  then show ?case by simp
next
  case (Suc n)
  obtain ps' s1 where step: "stepAll envs u orgId 0 ps s = (ps', s1)"
    by (cases "stepAll envs u orgId 0 ps s")
  have "\<forall>p\<in>set ps'. remaining (snd p) \<le> m - 1"
    using stepAll_remaining [OF Suc.prems, of envs u orgId 0 s] step by simp
  from Suc.IH [OF this, of s1] show ?case
    by (simp add: step)
qed

lemma rounds_settle:
  "\<forall>p\<in>set (fst (rounds 7 envs u orgId (map (\<lambda>(task, found). (task, FindDone found)) started) s)).
     \<exists>q. snd p = Settled q"
proof -
  have "\<forall>p\<in>set (map (\<lambda>(task, found). (task, FindDone found)) started). remaining (snd p) \<le> 7"
    by auto
  from rounds_remaining [OF this, of 7 envs u orgId s]
  have zero: "\<forall>p\<in>set (fst (rounds 7 envs u orgId
                 (map (\<lambda>(task, found). (task, FindDone found)) started) s)).
                remaining (snd p) = 0"
    by simp
  have "\<And>st. remaining st = 0 \<Longrightarrow> \<exists>q. st = Settled q"
    by (case_tac st) simp_all
  with zero show ?thesis by blast
qed

section \<open>A second pair of WAN interfaces between connected devices\<close>

text \<open>
  Claim C4 on the code. Device A has the assigned WAN interfaces \<open>ia\<close> and \<open>ia2\<close>,
  device B has \<open>ib\<close>. A mesh add on the empty store considers the combinations
  (\<open>ia\<close>, \<open>ib\<close>) and (\<open>ia2\<close>, \<open>ib\<close>) and creates a tunnel for each, numbers 1
  and 2. A mesh add on the store that holds the active tunnel between \<open>ia\<close> and
  \<open>ib\<close> only considers the same two combinations, and no active tunnel exists between
  \<open>ia2\<close> and \<open>ib\<close>; yet both combinations are skipped, because the existence query
  names the two devices and not the interfaces: the call resolves after its two queries,
  and no tunnel between \<open>ia2\<close> and \<open>ib\<close> is allocated, written or dispatched.
\<close>

theorem applyTunnelAdd_skips_unconnected_interfaces:
  "fst (outerLoop exCompatible [exDevA2, exDevB] [])
     = [(exDevA2, exDevB, exIfcA, exIfcB), (exDevA2, exDevB, exIfcA2, exIfcB)]
   \<and> filter (activeBetweenInterfaces ''org1'' (ifcId exIfcA2) (ifcId exIfcB))
        (tunnels exStoreConnected) = []
   \<and> applyTunnelAdd exCompatible exEnvs (Some [exDevA2, exDevB]) exUser (Some [''da'', ''db''])
        exStoreConnected
       = (Resolved (), exStoreConnected\<lparr>calls := [TunnelsFind, TunnelsFind]\<rparr>)
   \<and> fst (applyTunnelAdd exCompatible exEnvsTwo (Some [exDevA2, exDevB]) exUser
             (Some [''da'', ''db'']) exStoreEmpty) = Resolved ()
   \<and> map (\<lambda>t. (num t, isActive t, interfaceA t, interfaceB t))
        (tunnels (snd (applyTunnelAdd exCompatible exEnvsTwo (Some [exDevA2, exDevB]) exUser
                         (Some [''da'', ''db'']) exStoreEmpty)))
       = [(1, True, ''ia'', ''ib''), (2, True, ''ia2'', ''ib'')]"
proof -
  have loop: "outerLoop exCompatible [exDevA2, exDevB] []
                = ([(exDevA2, exDevB, exIfcA, exIfcB), (exDevA2, exDevB, exIfcA2, exIfcB)], False)"
    by (simp add: wanIntfs_def exDefs)
  have sel: "devId exDevA2 = ''da''" "devId exDevB = ''db''"
    by (simp_all add: exDefs)
  have none: "filter (activeBetweenInterfaces ''org1'' (ifcId exIfcA2) (ifcId exIfcB))
        (tunnels exStoreConnected) = []"
    by (simp add: activeBetweenInterfaces_def exDefs)
  have connected: "runPromises exEnvs (username exUser) (defaultOrg exUser)
        [(exDevA2, exDevB, exIfcA, exIfcB), (exDevA2, exDevB, exIfcA2, exIfcB)] exStoreConnected
      = ([Resolved Skipped, Resolved Skipped],
         exStoreConnected\<lparr>calls := [TunnelsFind, TunnelsFind]\<rparr>)"
    by (simp add: runPromises_def settlePromises_def eval_nat_numeral tunnelsFind_def
          activeBetweenDevices_def logCall_def exDefs)
  have r1: "applyTunnelAdd exCompatible exEnvs (Some [exDevA2, exDevB]) exUser
        (Some [''da'', ''db'']) exStoreConnected
       = (Resolved (), exStoreConnected\<lparr>calls := [TunnelsFind, TunnelsFind]\<rparr>)"
    by (simp add: applyTunnelAdd_def sel loop connected del: outerLoop.simps innerLoop.simps)
  have r2: "fst (applyTunnelAdd exCompatible exEnvsTwo (Some [exDevA2, exDevB]) exUser
                  (Some [''da'', ''db'']) exStoreEmpty) = Resolved ()
     \<and> map (\<lambda>t. (num t, isActive t, interfaceA t, interfaceB t))
          (tunnels (snd (applyTunnelAdd exCompatible exEnvsTwo (Some [exDevA2, exDevB]) exUser
                           (Some [''da'', ''db'']) exStoreEmpty)))
         = [(1, True, ''ia'', ''ib''), (2, True, ''ia2'', ''ib'')]"
    by (simp add: applyTunnelAdd_def runPromises_def settlePromises_def eval_nat_numeral
          startAddTunnel_def wanIntfs_def exDefs runDefs)
  from loop none r1 r2 show ?thesis
    by simp
qed

section \<open>The completion callback sets one confirmation flag\<close>

text \<open>
  Claim C10. For a job result whose paths are all present and non-empty and whose target
  is \<^verbatim>\<open>deviceAconf\<close> or \<^verbatim>\<open>deviceBconf\<close>, \<^verbatim>\<open>completeTunnelAdd\<close> issues one
  update on the tunnels and leaves counters, queue and devices alone. When the update is
  rejected or no record has this device A, device B and organization, the tunnels are
  unchanged; otherwise the first record with this device A, device B (in this order) and
  organization, whatever its \<open>isActive\<close> and \<open>num\<close>, has the flag named by the target
  set to \<open>True\<close>, and this is the only change: every other record and every other field
  of that record are as before.
\<close>

theorem completeTunnelAdd_sets_one_flag:
  assumes "cbDeviceA r = Some a" and "cbDeviceB r = Some b" and "cbTarget r = Some target"
    and "cbUsername r = Some userName" and "cbOrg r = Some orgId"
    and "a \<noteq> []" and "b \<noteq> []" and "userName \<noteq> []" and "orgId \<noteq> []"
    and "target = ''deviceAconf'' \<or> target = ''deviceBconf''"
  shows "tunnelids (completeTunnelAdd e jobId (Some r) s) = tunnelids s
       \<and> queue (completeTunnelAdd e jobId (Some r) s) = queue s
       \<and> devicesColl (completeTunnelAdd e jobId (Some r) s) = devicesColl s
       \<and> calls (completeTunnelAdd e jobId (Some r) s) = calls s @ [TunnelsFindOneAndUpdate]
       \<and> ((connectedErr e \<noteq> None
            \<or> (\<forall>t\<in>set (tunnels s). \<not> (deviceA t = a \<and> deviceB t = b \<and> org t = orgId)))
           \<longrightarrow> tunnels (completeTunnelAdd e jobId (Some r) s) = tunnels s)
       \<and> (connectedErr e = None
            \<and> (\<exists>t\<in>set (tunnels s). deviceA t = a \<and> deviceB t = b \<and> org t = orgId)
           \<longrightarrow> (\<exists>pre t post.
                  tunnels s = pre @ t # post
                \<and> (\<forall>x\<in>set pre. \<not> (deviceA x = a \<and> deviceB x = b \<and> org x = orgId))
                \<and> deviceA t = a \<and> deviceB t = b \<and> org t = orgId
                \<and> tunnels (completeTunnelAdd e jobId (Some r) s)
                    = pre @ (if target = ''deviceAconf'' then t\<lparr>deviceAconf := True\<rparr>
                             else t\<lparr>deviceBconf := True\<rparr>) # post))"
proof -
  let ?q = "\<lambda>t. deviceA t = a \<and> deviceB t = b \<and> org t = orgId"
  have target: "target \<noteq> []"
    using assms(10) by auto
  have run: "completeTunnelAdd e jobId (Some r) s
               = snd (updateTunnelIsConnected e orgId a b target True s)"
    using assms(1-9) target by (simp add: completeTunnelAdd_def)
  have setp: "setPath target True
               = (\<lambda>t. if target = ''deviceAconf'' then t\<lparr>deviceAconf := True\<rparr>
                       else t\<lparr>deviceBconf := True\<rparr>)"
    using assms(10) by (auto simp: setPath_def fun_eq_iff)
  have frame: "tunnelids (completeTunnelAdd e jobId (Some r) s) = tunnelids s
       \<and> queue (completeTunnelAdd e jobId (Some r) s) = queue s
       \<and> devicesColl (completeTunnelAdd e jobId (Some r) s) = devicesColl s
       \<and> calls (completeTunnelAdd e jobId (Some r) s) = calls s @ [TunnelsFindOneAndUpdate]"
    unfolding run
    by (simp add: updateTunnelIsConnected_def tunnelsFindOneAndUpdate_def logCall_def
          split: option.splits prod.splits)
  have fault: "connectedErr e \<noteq> None \<Longrightarrow> tunnels (completeTunnelAdd e jobId (Some r) s) = tunnels s"
    unfolding run
    by (auto simp: updateTunnelIsConnected_def tunnelsFindOneAndUpdate_def logCall_def)
  have nomatch: "tunnels (completeTunnelAdd e jobId (Some r) s) = tunnels s"
    if "\<forall>t\<in>set (tunnels s). \<not> ?q t"
    unfolding run
    using findOneAndUpdate_none [of "tunnels s" ?q "setPath target True"] that
    by (simp add: updateTunnelIsConnected_def tunnelsFindOneAndUpdate_def logCall_def
          split: option.splits)
  have match: "\<exists>pre t post.
                  tunnels s = pre @ t # post
                \<and> (\<forall>x\<in>set pre. \<not> ?q x) \<and> ?q t
                \<and> tunnels (completeTunnelAdd e jobId (Some r) s)
                    = pre @ (if target = ''deviceAconf'' then t\<lparr>deviceAconf := True\<rparr>
                             else t\<lparr>deviceBconf := True\<rparr>) # post"
    if served: "connectedErr e = None" and ex: "\<exists>t\<in>set (tunnels s). ?q t"
  proof -
    obtain pre t post where
      split: "tunnels s = pre @ t # post" and pre: "\<forall>x\<in>set pre. \<not> ?q x" and t: "?q t"
      using first_match_split [OF ex] by blast
    have "tunnels (completeTunnelAdd e jobId (Some r) s) = pre @ setPath target True t # post"
      unfolding run
      using findOneAndUpdate_first [OF pre t, of "setPath target True" post] served split
      by (simp add: updateTunnelIsConnected_def tunnelsFindOneAndUpdate_def logCall_def)
    with split pre t show ?thesis
      unfolding setp by blast
  qed
  from frame fault nomatch match show ?thesis by blast
qed

text \<open>On the store with three records between the devices A and B: the first record
  has the devices in the other order and is passed over; the second, an inactive record,
  is the one matched, and only its \<open>deviceBconf\<close> changes; the third is untouched.\<close>

theorem completeTunnelAdd_sets_one_flag_witness:
  "cbDeviceA (exResult ''deviceBconf'') = Some ''da''
   \<and> cbDeviceB (exResult ''deviceBconf'') = Some ''db''
   \<and> cbTarget (exResult ''deviceBconf'') = Some ''deviceBconf''
   \<and> cbUsername (exResult ''deviceBconf'') = Some ''admin''
   \<and> cbOrg (exResult ''deviceBconf'') = Some ''org1''
   \<and> ''da'' \<noteq> [] \<and> ''db'' \<noteq> [] \<and> ''admin'' \<noteq> [] \<and> ''org1'' \<noteq> []
   \<and> (''deviceBconf'' = ''deviceAconf'' \<or> ''deviceBconf'' = ''deviceBconf'')
   \<and> connectedErr exEnv = None
   \<and> (\<exists>t\<in>set (tunnels exStoreThree). deviceA t = ''da'' \<and> deviceB t = ''db'' \<and> org t = ''org1'')
   \<and> tunnelids (completeTunnelAdd exEnv 17 (Some (exResult ''deviceBconf'')) exStoreThree)
       = tunnelids exStoreThree
   \<and> queue (completeTunnelAdd exEnv 17 (Some (exResult ''deviceBconf'')) exStoreThree)
       = queue exStoreThree
   \<and> (\<exists>pre t post.
          tunnels exStoreThree = pre @ t # post
        \<and> (\<forall>x\<in>set pre. \<not> (deviceA x = ''da'' \<and> deviceB x = ''db'' \<and> org x = ''org1''))
        \<and> deviceA t = ''da'' \<and> deviceB t = ''db'' \<and> org t = ''org1''
        \<and> tunnels (completeTunnelAdd exEnv 17 (Some (exResult ''deviceBconf'')) exStoreThree)
            = pre @ (if ''deviceBconf'' = ''deviceAconf'' then t\<lparr>deviceAconf := True\<rparr>
                     else t\<lparr>deviceBconf := True\<rparr>) # post)
   \<and> tunnels (completeTunnelAdd exEnv 17 (Some (exResult ''deviceBconf'')) exStoreThree)
       = [exTunnel ''t2'' 2 True ''db'' ''ib'' ''da'' ''ia'',
          (exTunnel ''t7'' 7 False ''da'' ''ia'' ''db'' ''ib'')\<lparr>deviceBconf := True\<rparr>,
          exTunnel ''t8'' 8 True ''da'' ''ia'' ''db'' ''ib'']"
proof -
  have h: "cbDeviceA (exResult ''deviceBconf'') = Some ''da''"
    "cbDeviceB (exResult ''deviceBconf'') = Some ''db''"
    "cbTarget (exResult ''deviceBconf'') = Some ''deviceBconf''"
    "cbUsername (exResult ''deviceBconf'') = Some ''admin''"
    "cbOrg (exResult ''deviceBconf'') = Some ''org1''"
    "''da'' \<noteq> []" "''db'' \<noteq> []" "''admin'' \<noteq> []" "''org1'' \<noteq> []"
    "''deviceBconf'' = ''deviceAconf'' \<or> ''deviceBconf'' = ''deviceBconf''"
    by (simp_all add: exResult_def)
  have served: "connectedErr exEnv = None"
    by (simp add: exEnv_def)
  have ex: "\<exists>t\<in>set (tunnels exStoreThree).
              deviceA t = ''da'' \<and> deviceB t = ''db'' \<and> org t = ''org1''"
    by (simp add: exDefs)
  note t = completeTunnelAdd_sets_one_flag [OF h, of exEnv 17 exStoreThree]
  have run: "tunnels (completeTunnelAdd exEnv 17 (Some (exResult ''deviceBconf'')) exStoreThree)
       = [exTunnel ''t2'' 2 True ''db'' ''ib'' ''da'' ''ia'',
          (exTunnel ''t7'' 7 False ''da'' ''ia'' ''db'' ''ib'')\<lparr>deviceBconf := True\<rparr>,
          exTunnel ''t8'' 8 True ''da'' ''ia'' ''db'' ''ib'']"
    by (simp add: completeTunnelAdd_def updateTunnelIsConnected_def setPath_def exDefs
          tunnelsFindOneAndUpdate_def logCall_def)
  from t served ex have
    "tunnelids (completeTunnelAdd exEnv 17 (Some (exResult ''deviceBconf'')) exStoreThree)
       = tunnelids exStoreThree"
    "queue (completeTunnelAdd exEnv 17 (Some (exResult ''deviceBconf'')) exStoreThree)
       = queue exStoreThree"
    "\<exists>pre t post.
          tunnels exStoreThree = pre @ t # post
        \<and> (\<forall>x\<in>set pre. \<not> (deviceA x = ''da'' \<and> deviceB x = ''db'' \<and> org x = ''org1''))
        \<and> deviceA t = ''da'' \<and> deviceB t = ''db'' \<and> org t = ''org1''
        \<and> tunnels (completeTunnelAdd exEnv 17 (Some (exResult ''deviceBconf'')) exStoreThree)
            = pre @ (if ''deviceBconf'' = ''deviceAconf'' then t\<lparr>deviceAconf := True\<rparr>
                     else t\<lparr>deviceBconf := True\<rparr>) # post"
    by blast+
  with h served ex run show ?thesis
    by (intro conjI)
qed


section \<open>A version mismatch after promises were started\<close>

text \<open>
  Claim C5 on the code. Devices A and B have the same router version, device C another
  one, and all three are selected on the empty store. The pair (A, B) is enumerated
  first and its promise is started; the pair (A, C) then throws. The call is rejected
  with the version error, but the promise of (A, B) runs on: a tunnel record with number
  1 is written, the counter of the organization is created, and two jobs are queued.
\<close>

theorem applyTunnelAdd_mismatch_after_start:
  "fst (applyTunnelAdd exCompatible exEnvs (Some [exDevA, exDevB, exDevC]) exUser
          (Some [''da'', ''db'', ''dc'']) exStoreEmpty)
     = Rejected ''Cannot create tunnels between devices with mismatching router versions''
   \<and> tunnels (snd (applyTunnelAdd exCompatible exEnvs (Some [exDevA, exDevB, exDevC]) exUser
                    (Some [''da'', ''db'', ''dc'']) exStoreEmpty))
       = [\<lparr> tid = ''t9'', org = ''org1'', num = 1, isActive = True, deviceAconf = False,
            deviceBconf = False, deviceA = ''da'', interfaceA = ''ia'', deviceB = ''db'',
            interfaceB = ''ib'' \<rparr>]
   \<and> tunnelids (snd (applyTunnelAdd exCompatible exEnvs (Some [exDevA, exDevB, exDevC]) exUser
                    (Some [''da'', ''db'', ''dc'']) exStoreEmpty)) ''org1'' = Some 1
   \<and> map jobMachineId
        (queue (snd (applyTunnelAdd exCompatible exEnvs (Some [exDevA, exDevB, exDevC]) exUser
                       (Some [''da'', ''db'', ''dc'']) exStoreEmpty))) = [''ma'', ''mb'']
   \<and> calls (snd (applyTunnelAdd exCompatible exEnvs (Some [exDevA, exDevB, exDevC]) exUser
                    (Some [''da'', ''db'', ''dc'']) exStoreEmpty))
       = [TunnelsFind, TunnelsFindOneAndUpdate, TunnelIDsFindOneAndUpdate,
          TunnelsFindOneAndUpdate, QueueAddJob, QueueAddJob]
   \<and> tunnels exStoreEmpty = [] \<and> tunnelids exStoreEmpty ''org1'' = None
   \<and> queue exStoreEmpty = []"
  by (simp add: applyTunnelAdd_def runPromises_single runPromises_none wanIntfs_def exDefs
        runDefs)

section \<open>A delete request that names several tunnels\<close>

text \<open>
  Claim C6 on the code. When the selection names two or more tunnels, or when
  \<^verbatim>\<open>devices\<close> is missing, the guard of \<^verbatim>\<open>applyTunnelDel\<close> fails and the function
  returns: the call resolves, no error is reported, and the store is untouched.
\<close>

theorem applyTunnelDel_no_validation_error:
  "applyTunnelDel e (Some ds) usr (Some (t1 # t2 # others)) s = (Resolved (), s)
   \<and> applyTunnelDel e None usr (Some tunnelIds) s = (Resolved (), s)"
  by (simp add: applyTunnelDel_def)


section \<open>Mesh add on two devices with one WAN interface each\<close>

lemma served_jobs:
  assumes "prepareTunnelAddJob ks n iA iB ver = (tasksA, tasksB)"
  shows "map (\<lambda>t. (message t, tunnelId (params t), src (params t), dst (params t))) tasksA
           = [(''add-tunnel'', n, IPv4 iA, if PublicIP iB = [] then IPv4 iB else PublicIP iB)]
       \<and> map (\<lambda>t. (message t, tunnelId (params t), src (params t), dst (params t))) tasksB
           = [(''add-tunnel'', n, IPv4 iB, if PublicIP iA = [] then IPv4 iA else PublicIP iA)]"
  using assms by (auto simp: prepareTunnelAddJob_def Let_def)

lemma addTunnel_creates:
  assumes "upsertErr e = None" and "jobAErr e = None" and "jobBErr e = None"
    and "distinct (map (\<lambda>t. (org t, num t)) (tunnels s))"
  shows "\<exists>i jobA jobB s'.
      addTunnel e u orgId n devA devB iA iB s = (Inr [jobA, jobB], s')
    \<and> filter (\<lambda>t. org t = orgId \<and> num t = n) (tunnels s')
        = [\<lparr> tid = i, org = orgId, num = n, isActive = True, deviceAconf = False,
             deviceBconf = False, deviceA = devId devA, interfaceA = ifcId iA,
             deviceB = devId devB, interfaceB = ifcId iB \<rparr>]
    \<and> filter (\<lambda>t. \<not> (org t = orgId \<and> num t = n)) (tunnels s')
        = filter (\<lambda>t. \<not> (org t = orgId \<and> num t = n)) (tunnels s)
    \<and> queue s' = queue s @ [jobA, jobB]
    \<and> jobMachineId jobA = machineId devA \<and> jobMachineId jobB = machineId devB
    \<and> resTarget (response jobA) = ''deviceAconf'' \<and> resTarget (response jobB) = ''deviceBconf''
    \<and> map (\<lambda>t. (message t, tunnelId (params t), src (params t), dst (params t))) (tasks jobA)
        = [(''add-tunnel'', n, IPv4 iA, if PublicIP iB = [] then IPv4 iB else PublicIP iB)]
    \<and> map (\<lambda>t. (message t, tunnelId (params t), src (params t), dst (params t))) (tasks jobB)
        = [(''add-tunnel'', n, IPv4 iB, if PublicIP iA = [] then IPv4 iA else PublicIP iA)]"
proof -
  obtain tasksA tasksB where
    prep: "prepareTunnelAddJob (randomKeys e) n iA iB (agentVersion devB) = (tasksA, tasksB)"
    by (cases "prepareTunnelAddJob (randomKeys e) n iA iB (agentVersion devB)")
  let ?ttl = "tunnelTitle ''Create'' devA iA devB iB"
  let ?jobA = "tunnelJob True ?ttl tasksA u orgId (machineId devA) (devId devA) (devId devB)
                 ''deviceAconf''"
  let ?jobB = "tunnelJob True ?ttl tasksB u orgId (machineId devB) (devId devA) (devId devB)
                 ''deviceBconf''"
  let ?ts = "upsertTunnel (newOid e) orgId n (devId devA) (ifcId iA) (devId devB) (ifcId iB)
               (tunnels s)"
  let ?s' = "s\<lparr> tunnels := ?ts, queue := queue s @ [?jobA, ?jobB],
                calls := calls s @ [TunnelsFindOneAndUpdate, QueueAddJob, QueueAddJob] \<rparr>"
  have run: "addTunnel e u orgId n devA devB iA iB s = (Inr [?jobA, ?jobB], ?s')"
    using addTunnel_served [OF assms(1-3), of u orgId n devA devB iA iB s]
    by (simp add: Let_def prep)
  obtain i where keyed: "filter (\<lambda>t. org t = orgId \<and> num t = n) ?ts
        = [\<lparr> tid = i, org = orgId, num = n, isActive = True, deviceAconf = False,
             deviceBconf = False, deviceA = devId devA, interfaceA = ifcId iA,
             deviceB = devId devB, interfaceB = ifcId iB \<rparr>]"
    using upsertTunnel_keyed [OF assms(4)] by blast
  have others: "filter (\<lambda>t. \<not> (org t = orgId \<and> num t = n)) ?ts
        = filter (\<lambda>t. \<not> (org t = orgId \<and> num t = n)) (tunnels s)"
    by (rule upsertTunnel_others)
  show ?thesis
    by (rule exI [of _ i], rule exI [of _ ?jobA], rule exI [of _ ?jobB], rule exI [of _ ?s'])
       (use run keyed others served_jobs [OF prep] in \<open>simp add: tunnelJob_def\<close>)
qed

lemma getTunnelPromise_creates:
  assumes "findErr e = None" and "claimErr e = None" and "incErr e = None"
    and "upsertErr e = None" and "jobAErr e = None" and "jobBErr e = None"
    and "\<forall>t\<in>set (tunnels s). \<not> activeBetweenDevices orgId (devId devA) (devId devB) t"
    and "(\<exists>t\<in>set (tunnels s). isActive t = False \<and> org t = orgId)
         \<or> (case tunnelids s orgId of None \<Rightarrow> True | Some c \<Rightarrow> c < 15000)"
    and "distinct (map (\<lambda>t. (org t, num t)) (tunnels s))"
  shows "\<exists>n i jobA jobB s'.
      getTunnelPromise e u orgId devA devB iA iB s = (Resolved (TunnelJobs [jobA, jobB]), s')
    \<and> filter (\<lambda>t. org t = orgId \<and> num t = n) (tunnels s')
        = [\<lparr> tid = i, org = orgId, num = n, isActive = True, deviceAconf = False,
             deviceBconf = False, deviceA = devId devA, interfaceA = ifcId iA,
             deviceB = devId devB, interfaceB = ifcId iB \<rparr>]
    \<and> filter (\<lambda>t. \<not> (org t = orgId \<and> num t = n)) (tunnels s')
        = filter (\<lambda>t. \<not> (org t = orgId \<and> num t = n)) (tunnels s)
    \<and> queue s' = queue s @ [jobA, jobB]
    \<and> jobMachineId jobA = machineId devA \<and> jobMachineId jobB = machineId devB
    \<and> resTarget (response jobA) = ''deviceAconf'' \<and> resTarget (response jobB) = ''deviceBconf''
    \<and> map (\<lambda>t. (message t, tunnelId (params t), src (params t), dst (params t))) (tasks jobA)
        = [(''add-tunnel'', n, IPv4 iA, if PublicIP iB = [] then IPv4 iB else PublicIP iB)]
    \<and> map (\<lambda>t. (message t, tunnelId (params t), src (params t), dst (params t))) (tasks jobB)
        = [(''add-tunnel'', n, IPv4 iB, if PublicIP iA = [] then IPv4 iA else PublicIP iA)]"
proof (cases "\<exists>t\<in>set (tunnels s). isActive t = False \<and> org t = orgId")
  case True
  then obtain pre r post where
    split: "tunnels s = pre @ r # post"
    and pre: "\<forall>x\<in>set pre. \<not> (isActive x = False \<and> org x = orgId)"
    and r: "isActive r = False" "org r = orgId"
    using first_match_split [of "tunnels s" "\<lambda>t. isActive t = False \<and> org t = orgId"] by blast
  let ?s1 = "s\<lparr>tunnels := pre @ r\<lparr>isActive := True\<rparr> # post,
                calls := calls s @ [TunnelsFind, TunnelsFindOneAndUpdate]\<rparr>"
  have run: "getTunnelPromise e u orgId devA devB iA iB s
      = resolveJobs (Rejected ''Tunnel ID not found'')
          (addTunnel e u orgId (num r) devA devB iA iB ?s1)"
    using claim_inactive [of e "logCall TunnelsFind s" pre r post orgId u devA devB iA iB]
      assms(2) split pre r
    by (simp add: getTunnelPromise_allocates [OF assms(1) assms(7)] logCall_def)
  have dist: "distinct (map (\<lambda>t. (org t, num t)) (tunnels ?s1))"
    using assms(9) split by simp
  from addTunnel_creates [OF assms(4-6) dist, of u orgId "num r" devA devB iA iB]
  show ?thesis
  proof (elim exE conjE, goal_cases)
    case (1 i jobA jobB s')
    then show ?case
      by (intro exI [of _ "num r"] exI [of _ i] exI [of _ jobA] exI [of _ jobB] exI [of _ s'])
         (simp add: run resolveJobs_def split r)
  qed
next
  case False
  then have inact: "\<forall>x\<in>set (tunnels (logCall TunnelsFind s)).
                      \<not> (isActive x = False \<and> org x = orgId)"
    by (simp add: logCall_def)
  from False assms(8) have avail: "case tunnelids s orgId of None \<Rightarrow> True | Some c \<Rightarrow> c < 15000"
    by blast
  let ?n = "case tunnelids s orgId of None \<Rightarrow> 1 | Some c \<Rightarrow> c + 1"
  let ?s2 = "s\<lparr>tunnelids := (tunnelids s)(orgId \<mapsto> ?n),
                calls := calls s @ [TunnelsFind, TunnelsFindOneAndUpdate,
                                    TunnelIDsFindOneAndUpdate]\<rparr>"
  have run: "getTunnelPromise e u orgId devA devB iA iB s
      = resolveJobs (Rejected ''Tunnel ID not found'')
          (addTunnel e u orgId ?n devA devB iA iB ?s2)"
    unfolding getTunnelPromise_allocates [OF assms(1) assms(7)]
      no_inactive [OF assms(2) inact, of u devA devB iA iB]
    using assms(3) avail
    by (simp add: tunnelIDsFindOneAndUpdate_def logCall_def split: option.splits)
  have dist: "distinct (map (\<lambda>t. (org t, num t)) (tunnels ?s2))"
    using assms(9) by simp
  from addTunnel_creates [OF assms(4-6) dist, of u orgId ?n devA devB iA iB]
  show ?thesis
  proof (elim exE conjE, goal_cases)
    case (1 i jobA jobB s')
    then show ?case
      by (intro exI [of _ ?n] exI [of _ i] exI [of _ jobA] exI [of _ jobB] exI [of _ s'])
         (simp add: run resolveJobs_def)
  qed
qed


text \<open>
  Claim C1, as stated, fails: two devices with one assigned WAN interface each and no
  tunnel between them do not always get a tunnel. When their router versions are not
  compatible the call is rejected and nothing is written or queued; when the counter of
  the organization has reached 15000 and no number is free, the call is rejected with
  "Tunnel ID not found", again with no tunnel record and no job.
\<close>

theorem applyTunnelAdd_two_devices_counterexample:
  "applyTunnelAdd exCompatible exEnvs (Some [exDevA, exDevC]) exUser (Some [''da'', ''dc''])
       exStoreEmpty
     = (Rejected ''Cannot create tunnels between devices with mismatching router versions'',
        exStoreEmpty)
   \<and> wanIntfs exDevA = [exIfcA] \<and> wanIntfs exDevC = [exIfcC]
   \<and> tunnels exStoreEmpty = [] \<and> queue exStoreEmpty = []
   \<and> applyTunnelAdd exCompatible exEnvs (Some [exDevA, exDevB]) exUser (Some [''da'', ''db''])
       exStoreFull
     = (Rejected ''Tunnel ID not found'',
        exStoreFull\<lparr>calls := [TunnelsFind, TunnelsFindOneAndUpdate,
                               TunnelIDsFindOneAndUpdate, TunnelIDsFindOneAndUpdate]\<rparr>)
   \<and> wanIntfs exDevB = [exIfcB]
   \<and> tunnels exStoreFull = [] \<and> queue exStoreFull = []"
  by (simp add: applyTunnelAdd_def runPromises_single runPromises_none wanIntfs_def exDefs
        runDefs)

text \<open>
  Claim C1, amended. The selection picks exactly the two devices, their router versions
  are compatible, each has exactly one assigned WAN interface, no active tunnel of the
  organization joins them, a tunnel number can be allocated (an inactive record of the
  organization exists, or its counter is missing or below 15000), the store and the queue
  serve the calls, and no two tunnel records share organization and number. Then the call
  resolves and there is a tunnel number \<open>n\<close> such that afterwards exactly one tunnel
  record is keyed by the organization and \<open>n\<close> (inserted, or the reused record
  rewritten): it is active, both confirmation flags are false, and it names the two
  devices and their interfaces; the records with another key are as before. Exactly two
  jobs are appended to the queue, the first for device A's machine with target
  \<open>deviceAconf\<close>, the second for device B's machine with target \<open>deviceBconf\<close>; each
  carries one add-tunnel task with tunnel number \<open>n\<close>, its own interface's IPv4 as
  \<open>src\<close>, and as \<open>dst\<close> the peer interface's PublicIP when that is not empty, else
  the peer's IPv4.
\<close>

theorem applyTunnelAdd_two_devices:
  assumes "filter (\<lambda>d. devId d \<in> set sel) ds = [devA, devB]"
    and "compatible (routerVersion devA) (routerVersion devB)"
    and "wanIntfs devA = [iA]" and "wanIntfs devB = [iB]"
    and "findErr (envs 0) = None" and "claimErr (envs 0) = None" and "incErr (envs 0) = None"
    and "upsertErr (envs 0) = None" and "jobAErr (envs 0) = None" and "jobBErr (envs 0) = None"
    and "\<forall>t\<in>set (tunnels s).
           \<not> activeBetweenDevices (defaultOrg usr) (devId devA) (devId devB) t"
    and "(\<exists>t\<in>set (tunnels s). isActive t = False \<and> org t = defaultOrg usr)
         \<or> (case tunnelids s (defaultOrg usr) of None \<Rightarrow> True | Some c \<Rightarrow> c < 15000)"
    and "distinct (map (\<lambda>t. (org t, num t)) (tunnels s))"
  shows "\<exists>n i jobA jobB s'.
      applyTunnelAdd compatible envs (Some ds) usr (Some sel) s = (Resolved (), s')
    \<and> filter (\<lambda>t. org t = defaultOrg usr \<and> num t = n) (tunnels s')
        = [\<lparr> tid = i, org = defaultOrg usr, num = n, isActive = True, deviceAconf = False,
             deviceBconf = False, deviceA = devId devA, interfaceA = ifcId iA,
             deviceB = devId devB, interfaceB = ifcId iB \<rparr>]
    \<and> filter (\<lambda>t. \<not> (org t = defaultOrg usr \<and> num t = n)) (tunnels s')
        = filter (\<lambda>t. \<not> (org t = defaultOrg usr \<and> num t = n)) (tunnels s)
    \<and> queue s' = queue s @ [jobA, jobB]
    \<and> jobMachineId jobA = machineId devA \<and> jobMachineId jobB = machineId devB
    \<and> resTarget (response jobA) = ''deviceAconf'' \<and> resTarget (response jobB) = ''deviceBconf''
    \<and> map (\<lambda>t. (message t, tunnelId (params t), src (params t), dst (params t))) (tasks jobA)
        = [(''add-tunnel'', n, IPv4 iA, if PublicIP iB = [] then IPv4 iB else PublicIP iB)]
    \<and> map (\<lambda>t. (message t, tunnelId (params t), src (params t), dst (params t))) (tasks jobB)
        = [(''add-tunnel'', n, IPv4 iB, if PublicIP iA = [] then IPv4 iA else PublicIP iA)]"
proof -
  have loop: "outerLoop compatible [devA, devB] [] = ([(devA, devB, iA, iB)], False)"
    using assms(2-4) by simp
  have call: "applyTunnelAdd compatible envs (Some ds) usr (Some sel) s
      = (case getTunnelPromise (envs 0) (username usr) (defaultOrg usr) devA devB iA iB s of
           (Resolved v, s') \<Rightarrow> (Resolved (), s')
         | (Rejected m, s') \<Rightarrow> (Rejected m, s')
         | (Pending, s') \<Rightarrow> (Pending, s'))"
    by (simp add: applyTunnelAdd_def assms(1) loop runPromises_single
          del: outerLoop.simps innerLoop.simps split: prod.splits promise.splits)
  from getTunnelPromise_creates [OF assms(5-13), of "username usr" iA iB]
  show ?thesis
  proof (elim exE conjE, goal_cases)
    case (1 n i jobA jobB s')
    then show ?case
      by (intro exI [of _ n] exI [of _ i] exI [of _ jobA] exI [of _ jobB] exI [of _ s'])
         (simp add: call)
  qed
qed

text \<open>The devices A and B on the empty store: the call resolves, the one tunnel record
  has number 1, and the two jobs go to the machines of A and B with mirrored \<open>src\<close>
  and \<open>dst\<close> (device B's interface has a public address, device A's has none).\<close>

theorem applyTunnelAdd_two_devices_witness:
  "filter (\<lambda>d. devId d \<in> set [''da'', ''db'']) [exDevA, exDevB, exDevC] = [exDevA, exDevB]
   \<and> exCompatible (routerVersion exDevA) (routerVersion exDevB)
   \<and> wanIntfs exDevA = [exIfcA] \<and> wanIntfs exDevB = [exIfcB]
   \<and> findErr (exEnvs 0) = None \<and> claimErr (exEnvs 0) = None \<and> incErr (exEnvs 0) = None
   \<and> upsertErr (exEnvs 0) = None \<and> jobAErr (exEnvs 0) = None \<and> jobBErr (exEnvs 0) = None
   \<and> filter (activeBetweenDevices (defaultOrg exUser) (devId exDevA) (devId exDevB))
        (tunnels exStoreEmpty) = []
   \<and> ((\<exists>t\<in>set (tunnels exStoreEmpty). isActive t = False \<and> org t = defaultOrg exUser)
       \<or> (case tunnelids exStoreEmpty (defaultOrg exUser) of None \<Rightarrow> True
           | Some c \<Rightarrow> c < 15000))
   \<and> distinct (map (\<lambda>t. (org t, num t)) (tunnels exStoreEmpty))
   \<and> (\<exists>n i jobA jobB s'.
      applyTunnelAdd exCompatible exEnvs (Some [exDevA, exDevB, exDevC]) exUser
          (Some [''da'', ''db'']) exStoreEmpty = (Resolved (), s')
    \<and> filter (\<lambda>t. org t = defaultOrg exUser \<and> num t = n) (tunnels s')
        = [\<lparr> tid = i, org = defaultOrg exUser, num = n, isActive = True, deviceAconf = False,
             deviceBconf = False, deviceA = devId exDevA, interfaceA = ifcId exIfcA,
             deviceB = devId exDevB, interfaceB = ifcId exIfcB \<rparr>]
    \<and> filter (\<lambda>t. \<not> (org t = defaultOrg exUser \<and> num t = n)) (tunnels s')
        = filter (\<lambda>t. \<not> (org t = defaultOrg exUser \<and> num t = n)) (tunnels exStoreEmpty)
    \<and> queue s' = queue exStoreEmpty @ [jobA, jobB]
    \<and> jobMachineId jobA = machineId exDevA \<and> jobMachineId jobB = machineId exDevB
    \<and> resTarget (response jobA) = ''deviceAconf'' \<and> resTarget (response jobB) = ''deviceBconf''
    \<and> map (\<lambda>t. (message t, tunnelId (params t), src (params t), dst (params t))) (tasks jobA)
        = [(''add-tunnel'', n, IPv4 exIfcA,
            if PublicIP exIfcB = [] then IPv4 exIfcB else PublicIP exIfcB)]
    \<and> map (\<lambda>t. (message t, tunnelId (params t), src (params t), dst (params t))) (tasks jobB)
        = [(''add-tunnel'', n, IPv4 exIfcB,
            if PublicIP exIfcA = [] then IPv4 exIfcA else PublicIP exIfcA)])
   \<and> (case applyTunnelAdd exCompatible exEnvs (Some [exDevA, exDevB, exDevC]) exUser
              (Some [''da'', ''db'']) exStoreEmpty of
        (p, s') \<Rightarrow>
          (p, tunnels s', tunnelids s' ''org1'',
           map (\<lambda>j. (jobMachineId j, resTarget (response j),
                      map (\<lambda>t. (message t, tunnelId (params t), src (params t), dst (params t)))
                        (tasks j))) (queue s')))
     = (Resolved (),
        [\<lparr> tid = ''t9'', org = ''org1'', num = 1, isActive = True, deviceAconf = False,
           deviceBconf = False, deviceA = ''da'', interfaceA = ''ia'', deviceB = ''db'',
           interfaceB = ''ib'' \<rparr>],
        Some 1,
        [(''ma'', ''deviceAconf'', [(''add-tunnel'', 1, ''192.168.1.1'', ''8.8.4.4'')]),
         (''mb'', ''deviceBconf'', [(''add-tunnel'', 1, ''192.168.2.1'', ''192.168.1.1'')])])"
proof -
  have h1: "filter (\<lambda>d. devId d \<in> set [''da'', ''db'']) [exDevA, exDevB, exDevC]
              = [exDevA, exDevB]"
    and h2: "exCompatible (routerVersion exDevA) (routerVersion exDevB)"
    and h3: "wanIntfs exDevA = [exIfcA]" and h4: "wanIntfs exDevB = [exIfcB]"
    by (simp_all add: exDefs wanIntfs_def)
  have h5: "findErr (exEnvs 0) = None" and h6: "claimErr (exEnvs 0) = None"
    and h7: "incErr (exEnvs 0) = None" and h8: "upsertErr (exEnvs 0) = None"
    and h9: "jobAErr (exEnvs 0) = None" and h10: "jobBErr (exEnvs 0) = None"
    by (simp_all add: exEnvs_def exEnv_def)
  have h11: "\<forall>t\<in>set (tunnels exStoreEmpty).
         \<not> activeBetweenDevices (defaultOrg exUser) (devId exDevA) (devId exDevB) t"
    and h12: "(\<exists>t\<in>set (tunnels exStoreEmpty). isActive t = False \<and> org t = defaultOrg exUser)
       \<or> (case tunnelids exStoreEmpty (defaultOrg exUser) of None \<Rightarrow> True
           | Some c \<Rightarrow> c < 15000)"
    and h13: "distinct (map (\<lambda>t. (org t, num t)) (tunnels exStoreEmpty))"
    by (simp_all add: exDefs)
  have run: "(case applyTunnelAdd exCompatible exEnvs (Some [exDevA, exDevB, exDevC]) exUser
              (Some [''da'', ''db'']) exStoreEmpty of
        (p, s') \<Rightarrow>
          (p, tunnels s', tunnelids s' ''org1'',
           map (\<lambda>j. (jobMachineId j, resTarget (response j),
                      map (\<lambda>t. (message t, tunnelId (params t), src (params t), dst (params t)))
                        (tasks j))) (queue s')))
     = (Resolved (),
        [\<lparr> tid = ''t9'', org = ''org1'', num = 1, isActive = True, deviceAconf = False,
           deviceBconf = False, deviceA = ''da'', interfaceA = ''ia'', deviceB = ''db'',
           interfaceB = ''ib'' \<rparr>],
        Some 1,
        [(''ma'', ''deviceAconf'', [(''add-tunnel'', 1, ''192.168.1.1'', ''8.8.4.4'')]),
         (''mb'', ''deviceBconf'', [(''add-tunnel'', 1, ''192.168.2.1'', ''192.168.1.1'')])])"
    by (simp add: applyTunnelAdd_def runPromises_single runPromises_none wanIntfs_def exDefs
        runDefs)
  have f11: "filter (activeBetweenDevices (defaultOrg exUser) (devId exDevA) (devId exDevB))
               (tunnels exStoreEmpty) = []"
    using h11 by (simp add: filter_empty_conv)
  from h1 h2 h3 h4 h5 h6 h7 h8 h9 h10 f11 h12 h13
    applyTunnelAdd_two_devices [where compatible = exCompatible and envs = exEnvs
      and sel = "[''da'', ''db'']" and ds = "[exDevA, exDevB, exDevC]" and devA = exDevA
      and devB = exDevB and iA = exIfcA and iB = exIfcB and usr = exUser and s = exStoreEmpty,
      OF h1 h2 h3 h4 h5 h6 h7 h8 h9 h10 h11 h12 h13] run
  show ?thesis
    by (intro conjI)
qed


end
